theory Spec2Isabelle
  imports Complex_Main
begin

section \<open>Points and vectors\<close>

text \<open>
  The planner's \<open>point3d\<close> and \<open>vector3d\<close> are the three-component vector of the octree
  library: three coordinates, component-wise sum and difference, a product with a scalar,
  \<open>dot\<close>, \<open>cross\<close>, \<open>norm\<close>, \<open>distance\<close>, \<open>normalized\<close> and an exact, component-wise
  \<open>==\<close>. A default-constructed vector is \<open>(0, 0, 0)\<close>. The coordinates are single-precision
  floats in the source; this development idealises them, and every \<open>double\<close>, as real
  numbers, so rounding is outside the model.
\<close>

datatype point3d = Vector3 (px: real) (py: real) (pz: real)

instantiation point3d :: "{zero, plus, minus, uminus}"
begin

definition zero_point3d :: point3d where
  "zero_point3d = Vector3 0 0 0"

definition plus_point3d :: "point3d \<Rightarrow> point3d \<Rightarrow> point3d" where
  "plus_point3d a b = Vector3 (px a + px b) (py a + py b) (pz a + pz b)"

definition minus_point3d :: "point3d \<Rightarrow> point3d \<Rightarrow> point3d" where
  "minus_point3d a b = Vector3 (px a - px b) (py a - py b) (pz a - pz b)"

definition uminus_point3d :: "point3d \<Rightarrow> point3d" where
  "uminus_point3d a = Vector3 (- px a) (- py a) (- pz a)"

instance ..

end

definition scale :: "point3d \<Rightarrow> real \<Rightarrow> point3d" where
  \<comment> \<open>\<open>operator*(float)\<close>\<close>
  "scale v k = Vector3 (px v * k) (py v * k) (pz v * k)"

definition dot :: "point3d \<Rightarrow> point3d \<Rightarrow> real" where
  "dot a b = px a * px b + py a * py b + pz a * pz b"

definition cross :: "point3d \<Rightarrow> point3d \<Rightarrow> point3d" where
  "cross a b = Vector3 (py a * pz b - pz a * py b)
                       (pz a * px b - px a * pz b)
                       (px a * py b - py a * px b)"

definition norm3 :: "point3d \<Rightarrow> real" where
  \<comment> \<open>\<open>norm()\<close>\<close>
  "norm3 v = sqrt (dot v v)"

definition distance :: "point3d \<Rightarrow> point3d \<Rightarrow> real" where
  "distance a b = norm3 (a - b)"

definition normalized :: "point3d \<Rightarrow> point3d" where
  \<comment> \<open>\<open>normalize()\<close> divides by the length only when the length is positive\<close>
  "normalized v = (if norm3 v > 0 then scale v (1 / norm3 v) else v)"

section \<open>Lines and closest points\<close>

record Line =
  start_point :: point3d
  end_point :: point3d

definition direction :: "real \<Rightarrow> Line \<Rightarrow> point3d" where
  \<comment> \<open>the first argument is the constant \<open>SP_EPSILON_FLOAT\<close>, whose definition is not part
      of the sources at hand\<close>
  "direction eps l =
     (if norm3 (end_point l - start_point l) < eps then Vector3 0 0 0
      else normalized (end_point l - start_point l))"

definition length_Line :: "Line \<Rightarrow> real" where
  "length_Line l = distance (start_point l) (end_point l)"

definition minus_Line :: "Line \<Rightarrow> Line \<Rightarrow> Line" where
  \<comment> \<open>\<open>Line::operator-\<close>\<close>
  "minus_Line l other =
     \<lparr>start_point = start_point l - start_point other,
      end_point = end_point l - end_point other\<rparr>"

text \<open>The result of every routine: two points and their distance.\<close>

record ClosestPoints =
  dist :: real
  closest_point1 :: point3d
  closest_point2 :: point3d

definition closestPointsBetweenPointAndLine ::
    "point3d \<Rightarrow> point3d \<Rightarrow> point3d \<Rightarrow> ClosestPoints" where
  "closestPointsBetweenPointAndLine point line_point line_direction =
     (let a = line_point - point;
          c = a - scale line_direction (dot a line_direction);
          line_closest_point = point + c
      in \<lparr>dist = norm3 c, closest_point1 = point, closest_point2 = line_closest_point\<rparr>)"

definition closestPointsBetweenPointAndRay ::
    "point3d \<Rightarrow> point3d \<Rightarrow> point3d \<Rightarrow> ClosestPoints" where
  \<comment> \<open>\<open>ray_closest_point\<close> is declared and never assigned: it keeps the value of its
      default construction\<close>
  "closestPointsBetweenPointAndRay point ray_start ray_direction =
     (let ray_closest_point = (0 :: point3d);
          delta_to_start = point - ray_start
      in if dot delta_to_start ray_direction < 0
         then \<lparr>dist = norm3 delta_to_start, closest_point1 = point,
               closest_point2 = ray_closest_point\<rparr>
         else closestPointsBetweenPointAndLine point ray_start ray_direction)"

definition closestPointsBetweenPointAndLineSegment ::
    "point3d \<Rightarrow> Line \<Rightarrow> ClosestPoints" where
  "closestPointsBetweenPointAndLineSegment point line =
     (let a = start_point line - point;
          b = end_point line - point;
          (dist_min, rel_closest_point) =
            (if a = b then (norm3 a, a)
             else
               let (dist_min1, rel1) =
                     (if norm3 a > norm3 b then (norm3 b, b) else (norm3 a, a));
                   n_line = normalized (b - a);
                   c = a - scale n_line (dot a n_line)
               in if dot (c - a) (c - b) < 0 \<and> dist_min1 > norm3 c
                  then (norm3 c, c) else (dist_min1, rel1))
      in \<lparr>dist = dist_min, closest_point1 = point,
          closest_point2 = rel_closest_point + point\<rparr>)"

definition closestPointsBetweenLinePaths :: "Line \<Rightarrow> Line \<Rightarrow> ClosestPoints" where
  "closestPointsBetweenLinePaths line1 line2 =
     (let rel_path = minus_Line line2 line1;
          origin = Vector3 0 0 0;
          rel_closest_points = closestPointsBetweenPointAndLineSegment origin rel_path;
          line_length = length_Line rel_path;
          alpha = (if line_length > 0
                   then norm3 (closest_point2 rel_closest_points - start_point rel_path)
                          / line_length
                   else 0)
      in \<lparr>dist = dist rel_closest_points,
          closest_point1 =
            start_point line1 + scale (end_point line1 - start_point line1) alpha,
          closest_point2 =
            start_point line2 + scale (end_point line2 - start_point line2) alpha\<rparr>)"

text \<open>
  Failures are values: the exception \<open>std::invalid_argument\<close> that
  \<open>closestPointsBetweenLines\<close> throws, a call through a null pointer and an index beyond
  the end of a vector. The routine for a point and a convex hull is left out: it only
  forwards to the GJK library, which is not among the sources at hand. A division by zero
  gives a non-number in the source and zero in this model; the guards of the source
  exclude it whenever the epsilon is positive.
\<close>

datatype error = Invalid_argument | Null_pointer | Index_out_of_range

definition det3 :: "point3d \<Rightarrow> point3d \<Rightarrow> point3d \<Rightarrow> real" where
  \<comment> \<open>determinant of the matrix with the three columns given\<close>
  "det3 c1 c2 c3 = dot c1 (cross c2 c3)"

definition inverse_times :: "point3d \<Rightarrow> point3d \<Rightarrow> point3d \<Rightarrow> point3d \<Rightarrow> point3d" where
  \<comment> \<open>\<open>A.inverse() * b\<close> for the matrix \<open>A\<close> with columns \<open>c1\<close>, \<open>c2\<close>, \<open>c3\<close>: the
      cofactor formula of a 3 by 3 inverse, applied to \<open>b\<close>. Where the determinant is zero
      the source yields non-numbers and this model yields zero.\<close>
  "inverse_times c1 c2 c3 b =
     Vector3 (det3 b c2 c3 / det3 c1 c2 c3)
             (det3 c1 b c3 / det3 c1 c2 c3)
             (det3 c1 c2 b / det3 c1 c2 c3)"

definition closestPointsBetweenLines :: "real \<Rightarrow> Line \<Rightarrow> Line \<Rightarrow> error + ClosestPoints" where
  "closestPointsBetweenLines eps line1 line2 =
     (if start_point line1 = end_point line1 then Inl Invalid_argument
      else if start_point line2 = end_point line2 then Inl Invalid_argument
      else
        let n1 = normalized (end_point line1 - start_point line1);
            n2 = normalized (end_point line2 - start_point line2)
        in if distance n1 n2 < eps \<or> distance n1 (- n2) < eps
           then
             let delta0 = start_point line2 - start_point line1;
                 delta = delta0 - scale n1 (dot delta0 n1)
             in Inr \<lparr>dist = norm3 delta, closest_point1 = start_point line1,
                     closest_point2 = start_point line1 + delta\<rparr>
           else
             let delta = start_point line2 - start_point line1;
                 n3 = normalized (cross n2 n1);
                 alphas = inverse_times n1 (- n2) n3 delta
             in Inr \<lparr>dist = \<bar>pz alphas\<bar>,
                     closest_point1 = start_point line1 + scale n1 (px alphas),
                     closest_point2 = start_point line2 + scale n2 (py alphas)\<rparr>)"

definition parallelLineSegments :: "Line \<Rightarrow> Line \<Rightarrow> ClosestPoints" where
  \<comment> \<open>the block of \<open>closestPointsBetweenLineSegments\<close> under
      ``If two line segments are parallel''\<close>
  "parallelLineSegments line1 line2 =
     (let v1 = end_point line1 - start_point line1;
          l1 = norm3 v1;
          n1 = scale v1 (1 / l1);
          bound_min0 = dot (start_point line2 - start_point line1) n1;
          bound_max0 = dot (end_point line2 - start_point line1) n1;
          (bound_min, bound_max, p2_min, p2_max) =
            (if bound_max0 < bound_min0
             then (bound_max0, bound_min0, end_point line2, start_point line2)
             else (bound_min0, bound_max0, start_point line2, end_point line2));
          delta0 = start_point line2 - start_point line1;
          delta = delta0 - scale n1 (dot delta0 n1);
          (p1, p2) =
            (if l1 < bound_min then (end_point line1, p2_min)
             else if bound_max < 0 then (start_point line1, p2_max)
             else if bound_min < 0 then (start_point line1, start_point line1 + delta)
             else (p2_min - delta, p2_min))
      in \<lparr>dist = distance p1 p2, closest_point1 = p1, closest_point2 = p2\<rparr>)"

definition clamp_dot :: "real \<Rightarrow> real \<Rightarrow> real" where
  \<comment> \<open>\<open>if (dot < 0) dot = 0; else if (dot > l) dot = l;\<close>\<close>
  "clamp_dot l d = (if d < 0 then 0 else if d > l then l else d)"

definition skewLineSegments :: "real \<Rightarrow> Line \<Rightarrow> Line \<Rightarrow> error + ClosestPoints" where
  \<comment> \<open>the block of \<open>closestPointsBetweenLineSegments\<close> for segments that are not
      parallel\<close>
  "skewLineSegments eps line1 line2 =
     (case closestPointsBetweenLines eps line1 line2 of
        Inl e \<Rightarrow> Inl e
      | Inr closest_points \<Rightarrow>
        let v1 = end_point line1 - start_point line1;
            v2 = end_point line2 - start_point line2;
            l1 = norm3 v1;
            l2 = norm3 v2;
            n1 = scale v1 (1 / l1);
            n2 = scale v2 (1 / l2);
            alpha1 = dot (closest_point1 closest_points - start_point line1) n1 / l1;
            alpha2 = dot (closest_point2 closest_points - start_point line2) n2 / l2;
            p1a = (if alpha1 < 0 then start_point line1
                   else if alpha1 > 1 then end_point line1
                   else closest_point1 closest_points);
            p2a = (if alpha2 < 0 then start_point line2
                   else if alpha2 > 1 then end_point line2
                   else closest_point2 closest_points);
            p2b = (if alpha1 < 0 \<or> alpha1 > 1
                   then start_point line2
                          + scale n2 (clamp_dot l2 (dot n2 (p1a - start_point line2)))
                   else p2a);
            p1b = (if alpha2 < 0 \<or> alpha2 > 1
                   then start_point line1
                          + scale n1 (clamp_dot l1 (dot n1 (p2b - start_point line1)))
                   else p1a)
        in Inr \<lparr>dist = distance p1b p2b, closest_point1 = p1b, closest_point2 = p2b\<rparr>)"

definition swap_points :: "ClosestPoints \<Rightarrow> ClosestPoints" where
  \<comment> \<open>\<open>std::swap(closest_points.closest_point1, closest_points.closest_point2)\<close>\<close>
  "swap_points c = c\<lparr>closest_point1 := closest_point2 c, closest_point2 := closest_point1 c\<rparr>"

definition closestPointsBetweenLineSegments ::
    "real \<Rightarrow> Line \<Rightarrow> Line \<Rightarrow> error + ClosestPoints" where
  "closestPointsBetweenLineSegments eps line1 line2 =
     (if distance (start_point line1) (end_point line1) < eps
      then Inr (closestPointsBetweenPointAndLineSegment (start_point line1) line2)
      else if distance (start_point line2) (end_point line2) < eps
      then Inr (swap_points (closestPointsBetweenPointAndLineSegment (start_point line2) line1))
      else
        let v1 = end_point line1 - start_point line1;
            v2 = end_point line2 - start_point line2;
            n1 = scale v1 (1 / norm3 v1);
            n2 = scale v2 (1 / norm3 v2)
        in if norm3 (cross n1 n2) < eps
           then Inr (parallelLineSegments line1 line2)
           else skewLineSegments eps line1 line2)"

section \<open>The agent manager\<close>

text \<open>
  The enumerations, the parameter and agent structures and the collaborating classes are
  declared in headers that are not among the sources at hand.
\<close>

text \<open>
  Modelled from the spec: the enumeration \<open>PlannerState\<close>, with the five planner states
  the specification names.
\<close>

datatype PlannerState = WAIT | GOTO | PATROL | GOBACK | LAND

text \<open>
  Modelled from the spec: the enumeration \<open>PlanningReport\<close>, with the five values the
  specification gives as the exit semantics of \<open>plan\<close>.
\<close>

datatype PlanningReport =
  WAITFORROSMSG | SUCCESS | INITTRAJGENERATIONFAIL | CONSTRAINTGENERATIONFAIL | QPFAIL

text \<open>
  The structures carry the fields that the manager reads and writes in the sources.
\<close>

record State =
  position :: point3d
  velocity :: point3d
  acceleration :: point3d

record Agent =
  id_Agent :: int
  current_state :: State
  start_point_Agent :: point3d
  desired_goal_point :: point3d
  current_goal_point :: point3d
  next_waypoint :: point3d

record Param =
  multisim_experiment :: bool
  world_dimension :: int
  world_z_2d :: real
  world_use_global_map :: bool
  goal_threshold :: real

text \<open>
  The command executor is an external collaborator. Its answers to the manager's queries
  are fields, and the calls the manager makes to it are recorded: the number of
  \<open>landingCallback\<close> calls and the last trajectory handed to \<open>updateTraj\<close> with its time.
\<close>

record 'traj CmdPublisher =
  isDisturbed :: bool
  getObservedAgentPosition :: point3d
  landingFinished :: bool
  landingCallback_calls :: nat
  updateTraj_last :: "('traj \<times> real) option"

text \<open>
  The trajectory planner and the trajectory type are external too: the planner is a state
  of type \<open>'tp\<close>, and what the manager calls on it and on a trajectory is a record of
  functions. The map manager is reduced to the list of positions passed to
  \<open>updateVirtualLocalMap\<close>, latest first.
\<close>

record ('tp, 'traj) collaborators =
  traj_planner_plan :: "'tp \<Rightarrow> Agent \<Rightarrow> point3d list \<Rightarrow> real \<Rightarrow> bool \<Rightarrow> 'traj \<times> 'tp"
  getCurrentGoalPosition :: "'tp \<Rightarrow> point3d"
  getCollisionAlert :: "'tp \<Rightarrow> bool"
  getStateAt :: "'traj \<Rightarrow> real \<Rightarrow> State"

record ('tp, 'traj) AgentManager =
  param :: Param
  mission_agents :: "Agent list"
  agent :: Agent
  planner_state :: PlannerState
  has_current_state :: bool
  has_obstacles :: bool
  has_local_map :: bool
  is_disturbed :: bool
  collision_alert :: bool
  traj_planner :: 'tp
  map_manager :: "point3d list"
  cmd_publisher :: "'traj CmdPublisher option"
  desired_traj :: 'traj

definition set_z :: "point3d \<Rightarrow> real \<Rightarrow> point3d" where
  \<comment> \<open>\<open>p.z() = v\<close>\<close>
  "set_z p v = Vector3 (px p) (py p) v"

definition mission_agent :: "('tp, 'traj) AgentManager \<Rightarrow> error + Agent" where
  \<comment> \<open>\<open>mission.agents[agent.id]\<close>; an index outside the vector is an error value here\<close>
  "mission_agent s =
     (let i = id_Agent (agent s)
      in if 0 \<le> i \<and> nat i < length (mission_agents s)
         then Inr (mission_agents s ! nat i) else Inl Index_out_of_range)"

definition getFutureStateMsg ::
    "('tp, 'traj) collaborators \<Rightarrow> ('tp, 'traj) AgentManager \<Rightarrow> real \<Rightarrow> State" where
  "getFutureStateMsg env s future_time = getStateAt env (desired_traj s) future_time"

definition doStep_rest ::
    "('tp, 'traj) collaborators \<Rightarrow> ('tp, 'traj) AgentManager \<Rightarrow> bool \<Rightarrow> real
       \<Rightarrow> ('tp, 'traj) AgentManager" where
  \<comment> \<open>\<open>doStep\<close> from \<open>if (do_step_ideal)\<close> to its end\<close>
  "doStep_rest env s1 do_step_ideal time_step =
     (let s2 = (if do_step_ideal
                then
                  let ideal_future_state = getFutureStateMsg env s1 time_step
                  in s1\<lparr>agent := (agent s1)\<lparr>current_state :=
                           \<lparr>position = position ideal_future_state,
                            velocity = velocity ideal_future_state,
                            acceleration = acceleration ideal_future_state\<rparr>\<rparr>\<rparr>
                else s1);
          s3 = (if world_dimension (param s2) = 2
                then s2\<lparr>agent := (agent s2)\<lparr>current_state :=
                          (current_state (agent s2))
                            \<lparr>position := set_z (position (current_state (agent s2)))
                                                (world_z_2d (param s2))\<rparr>\<rparr>\<rparr>
                else s2);
          s4 = (if \<not> world_use_global_map (param s3)
                then s3\<lparr>map_manager := position (current_state (agent s3)) # map_manager s3\<rparr>
                else s3)
      in s4\<lparr>has_current_state := True\<rparr>)"

definition doStep ::
    "('tp, 'traj) collaborators \<Rightarrow> ('tp, 'traj) AgentManager \<Rightarrow> real
       \<Rightarrow> error + ('tp, 'traj) AgentManager" where
  \<comment> \<open>a call through the null \<open>cmd_publisher\<close> is the error \<open>Null_pointer\<close>\<close>
  "doStep env s time_step =
     (if multisim_experiment (param s)
      then
        (case cmd_publisher s of
           None \<Rightarrow> Inl Null_pointer
         | Some cp \<Rightarrow>
           let sa = s\<lparr>is_disturbed := isDisturbed cp\<rparr>
           in if is_disturbed sa
              then Inr (doStep_rest env
                          (sa\<lparr>agent := (agent sa)\<lparr>current_state :=
                                 \<lparr>position = getObservedAgentPosition cp,
                                  velocity = Vector3 0 0 0,
                                  acceleration = Vector3 0 0 0\<rparr>\<rparr>\<rparr>)
                          False time_step)
              else Inr (doStep_rest env sa True time_step))
      else Inr (doStep_rest env s True time_step))"

definition planningStateTransition ::
    "('tp, 'traj) AgentManager \<Rightarrow> error + ('tp, 'traj) AgentManager" where
  "planningStateTransition s =
     (if planner_state s = GOTO
      then (case mission_agent s of
              Inl e \<Rightarrow> Inl e
            | Inr m \<Rightarrow> Inr (s\<lparr>agent := (agent s)\<lparr>desired_goal_point := desired_goal_point m\<rparr>\<rparr>))
      else if planner_state s = PATROL
              \<and> distance (desired_goal_point (agent s)) (position (current_state (agent s)))
                  < goal_threshold (param s)
      then
        let temp = desired_goal_point (agent s)
        in Inr (s\<lparr>agent := (agent s)\<lparr>desired_goal_point := start_point_Agent (agent s),
                                      start_point_Agent := temp\<rparr>\<rparr>)
      else if planner_state s = GOBACK
      then (case mission_agent s of
              Inl e \<Rightarrow> Inl e
            | Inr m \<Rightarrow> Inr (s\<lparr>agent := (agent s)\<lparr>desired_goal_point := start_point_Agent m\<rparr>\<rparr>))
      else Inr s)"

definition plan ::
    "('tp, 'traj) collaborators \<Rightarrow> ('tp, 'traj) AgentManager \<Rightarrow> real
       \<Rightarrow> error + (PlanningReport \<times> ('tp, 'traj) AgentManager)" where
  "plan env s sim_current_time =
     (if \<not> has_obstacles s \<or> \<not> has_current_state s then Inr (WAITFORROSMSG, s)
      else
        case (if multisim_experiment (param s) \<and> planner_state s = LAND
              then
                (case cmd_publisher s of
                   None \<Rightarrow> Inl Null_pointer
                 | Some cp \<Rightarrow>
                   Inr (s\<lparr>cmd_publisher :=
                          Some (cp\<lparr>landingCallback_calls := Suc (landingCallback_calls cp)\<rparr>)\<rparr>))
              else
                case planningStateTransition s of
                  Inl e \<Rightarrow> Inl e
                | Inr s1 \<Rightarrow>
                  let (traj, tp) = traj_planner_plan env (traj_planner s1) (agent s1)
                                     (map_manager s1) sim_current_time (is_disturbed s1);
                      s2 = s1\<lparr>desired_traj := traj, traj_planner := tp\<rparr>;
                      s3 = s2\<lparr>agent := (agent s2)\<lparr>current_goal_point :=
                                getCurrentGoalPosition env (traj_planner s2)\<rparr>\<rparr>;
                      s4 = s3\<lparr>collision_alert := getCollisionAlert env (traj_planner s3)\<rparr>
                  in if multisim_experiment (param s4)
                     then (case cmd_publisher s4 of
                             None \<Rightarrow> Inl Null_pointer
                           | Some cp \<Rightarrow>
                             Inr (s4\<lparr>cmd_publisher :=
                                    Some (cp\<lparr>updateTraj_last :=
                                               Some (desired_traj s4, sim_current_time)\<rparr>)\<rparr>))
                     else Inr s4) of
          Inl e \<Rightarrow> Inl e
        | Inr s5 \<Rightarrow> Inr (SUCCESS, s5\<lparr>has_obstacles := False, has_current_state := False\<rparr>))"

definition setPlannerState ::
    "('tp, 'traj) AgentManager \<Rightarrow> PlannerState \<Rightarrow> error + ('tp, 'traj) AgentManager" where
  "setPlannerState s new_planner_state =
     (if multisim_experiment (param s) \<and> planner_state s = LAND
      then (case cmd_publisher s of
              None \<Rightarrow> Inl Null_pointer
            | Some cp \<Rightarrow>
              if \<not> landingFinished cp then Inr s
              else Inr (s\<lparr>planner_state := new_planner_state\<rparr>))
      else Inr (s\<lparr>planner_state := new_planner_state\<rparr>))"

definition well_formed :: "('tp, 'traj) AgentManager \<Rightarrow> bool" where
  \<comment> \<open>the managers on which every call is defined: the command publisher exists exactly
      in the multi-simulation experiment, as the constructor leaves it, and the agent's
      identifier indexes the agents of the mission\<close>
  "well_formed s \<longleftrightarrow>
     (multisim_experiment (param s) \<longleftrightarrow> cmd_publisher s \<noteq> None)
     \<and> 0 \<le> id_Agent (agent s) \<and> nat (id_Agent (agent s)) < length (mission_agents s)"

section \<open>The relative path of two moving points\<close>

text \<open>
  The position of the agent relative to the obstacle after the fraction \<open>\<alpha>\<close> of the
  common duration, both moving along their paths at constant speed: the path \<open>R\<close> of the
  specification.
\<close>

definition rel_position :: "Line \<Rightarrow> Line \<Rightarrow> real \<Rightarrow> point3d" where
  "rel_position obs_path agent_path \<alpha> =
     (start_point agent_path + scale (end_point agent_path - start_point agent_path) \<alpha>)
     - (start_point obs_path + scale (end_point obs_path - start_point obs_path) \<alpha>)"

text \<open>
  The line through \<open>a\<close> and \<open>b\<close>, for \<open>a \<noteq> b\<close>: its unit direction, the coordinate of \<open>a\<close>
  along it, and the foot of the perpendicular from the origin, as the source computes
  them (\<open>n_line\<close>, \<open>a.dot(n_line)\<close> and \<open>c\<close>).
\<close>

definition n_line :: "point3d \<Rightarrow> point3d \<Rightarrow> point3d" where
  "n_line a b = normalized (b - a)"

definition along :: "point3d \<Rightarrow> point3d \<Rightarrow> real" where
  "along a b = dot a (n_line a b)"

definition foot :: "point3d \<Rightarrow> point3d \<Rightarrow> point3d" where
  "foot a b = a - scale (n_line a b) (along a b)"

text \<open>
  The fraction of the segment from \<open>a\<close> to \<open>b\<close> at which it is closest to the origin.
\<close>

definition closest_alpha :: "point3d \<Rightarrow> point3d \<Rightarrow> real" where
  "closest_alpha a b =
     (if a = b then 0
      else if - norm3 (b - a) < along a b \<and> along a b < 0
      then - (along a b / norm3 (b - a))
      else if 0 \<le> along a b then 0 else 1)"

section \<open>Coordinates along a segment\<close>



text \<open>
  The parallel block in the coordinate along the first segment, of length \<open>l1\<close>, where the
  ends of the second segment project to \<open>ta\<close> and \<open>tb\<close>: the coordinates of the two points
  returned (lemma \<open>parallel_coords\<close> below).
\<close>

definition par_t :: "real \<Rightarrow> real \<Rightarrow> real \<Rightarrow> real" where
  "par_t l1 ta tb =
     (let bmin = min ta tb; bmax = max ta tb
      in if l1 < bmin then l1 else if bmax < 0 then 0 else if bmin < 0 then 0 else bmin)"

definition par_u :: "real \<Rightarrow> real \<Rightarrow> real \<Rightarrow> real" where
  "par_u l1 ta tb =
     (let bmin = min ta tb; bmax = max ta tb
      in if l1 < bmin then bmin else if bmax < 0 then bmax else if bmin < 0 then 0 else bmin)"

section \<open>Example configurations\<close>

text \<open>
  A patrolling agent that has reached its goal: start \<open>(0, 0, 1)\<close>, goal \<open>(5, 0, 1)\<close>,
  goal threshold \<open>0.2\<close>, in a two-dimensional world of height \<open>1\<close>. The second manager runs
  the multi-simulation experiment with a command executor that reports a disturbance and
  the observed position \<open>(1, 2, 3)\<close>.
\<close>

definition example_env :: "(unit, unit) collaborators" where
  "example_env =
     \<lparr>traj_planner_plan = (\<lambda>tp a m t d. ((), ())),
      getCurrentGoalPosition = (\<lambda>tp. Vector3 5 0 1),
      getCollisionAlert = (\<lambda>tp. False),
      getStateAt = (\<lambda>tr t. \<lparr>position = Vector3 4 4 4, velocity = Vector3 1 0 0,
                               acceleration = Vector3 0 1 0\<rparr>)\<rparr>"

definition example_agent :: Agent where
  "example_agent =
     \<lparr>id_Agent = 0,
      current_state = \<lparr>position = Vector3 5 0 1, velocity = Vector3 0 0 0,
                       acceleration = Vector3 0 0 0\<rparr>,
      start_point_Agent = Vector3 0 0 1,
      desired_goal_point = Vector3 5 0 1,
      current_goal_point = Vector3 5 0 1,
      next_waypoint = Vector3 5 0 1\<rparr>"

definition example_param :: Param where
  "example_param =
     \<lparr>multisim_experiment = False, world_dimension = 2, world_z_2d = 1,
      world_use_global_map = True, goal_threshold = 1 / 5\<rparr>"

definition example_publisher :: "unit CmdPublisher" where
  "example_publisher =
     \<lparr>isDisturbed = True, getObservedAgentPosition = Vector3 1 2 3,
      landingFinished = False, landingCallback_calls = 0, updateTraj_last = None\<rparr>"

definition example_manager :: "(unit, unit) AgentManager" where
  "example_manager =
     \<lparr>param = example_param, mission_agents = [example_agent], agent = example_agent,
      planner_state = PATROL, has_current_state = True, has_obstacles = True,
      has_local_map = False, is_disturbed = False, collision_alert = False,
      traj_planner = (), map_manager = [], cmd_publisher = None, desired_traj = ()\<rparr>"

definition example_multisim :: "(unit, unit) AgentManager" where
  "example_multisim =
     example_manager\<lparr>param := example_param\<lparr>multisim_experiment := True\<rparr>,
                     cmd_publisher := Some example_publisher\<rparr>"

text \<open>Two parallel segments one unit apart, the second running against the first.\<close>

definition example_line1 :: Line where
  "example_line1 = \<lparr>start_point = Vector3 0 0 0, end_point = Vector3 3 0 0\<rparr>"

definition example_line2 :: Line where
  "example_line2 = \<lparr>start_point = Vector3 2 1 0, end_point = Vector3 1 1 0\<rparr>"

text \<open>A segment skew to the first example segment, one unit above it.\<close>

definition example_line3 :: Line where
  "example_line3 = \<lparr>start_point = Vector3 1 (- 1) 1, end_point = Vector3 1 2 1\<rparr>"

definition example_point_line :: Line where
  "example_point_line = \<lparr>start_point = Vector3 0 2 0, end_point = Vector3 0 2 0\<rparr>"





section \<open>Basic facts\<close>

lemmas example_defs = example_env_def example_agent_def example_param_def
  example_publisher_def example_manager_def example_multisim_def

lemmas vec_defs = plus_point3d_def minus_point3d_def uminus_point3d_def zero_point3d_def
  scale_def dot_def cross_def norm3_def distance_def

lemma sqrt_eqI: "0 \<le> r \<Longrightarrow> r * r = x \<Longrightarrow> sqrt x = r"
  by (metis abs_of_nonneg real_sqrt_abs2)

lemma sqrt_9: "sqrt 9 = 3"
  by (rule sqrt_eqI) simp_all

lemma dot_commute: "dot a b = dot b a"
  by (simp add: dot_def mult.commute)

lemma distance_commute: "distance a b = distance b a"
proof -
  have "dot (a - b) (a - b) = dot (b - a) (b - a)"
    by (simp add: dot_def minus_point3d_def algebra_simps)
  then show ?thesis by (simp add: distance_def norm3_def)
qed

lemma cross_scale: "cross (scale a k) (scale b m) = scale (cross a b) (k * m)"
  by (simp add: cross_def scale_def algebra_simps)

lemma dot_self_nonneg: "0 \<le> dot v v"
  by (simp add: dot_def)

lemma dot_self_eq_0_iff: "dot v v = 0 \<longleftrightarrow> v = Vector3 0 0 0"
proof (cases v)
  case (Vector3 x y z)
  have "x * x + y * y + z * z = 0 \<longleftrightarrow> x = 0 \<and> y = 0 \<and> z = 0"
    by (metis add_nonneg_eq_0_iff mult_eq_0_iff zero_le_square add_nonneg_nonneg)
  with Vector3 show ?thesis by (simp add: dot_def)
qed

lemma norm3_nonneg: "0 \<le> norm3 v"
  by (simp add: norm3_def dot_self_nonneg)

lemma norm3_mult_self: "norm3 v * norm3 v = dot v v"
  by (simp add: norm3_def dot_self_nonneg)

lemma norm3_eq_0_iff: "norm3 v = 0 \<longleftrightarrow> v = Vector3 0 0 0"
  by (simp add: norm3_def dot_self_eq_0_iff)

lemma norm3_pos_iff: "0 < norm3 v \<longleftrightarrow> v \<noteq> Vector3 0 0 0"
  using norm3_nonneg [of v] norm3_eq_0_iff [of v] by linarith

lemma norm3_le_iff: "norm3 u \<le> norm3 v \<longleftrightarrow> dot u u \<le> dot v v"
  by (simp add: norm3_def)

lemma norm3_less_iff: "norm3 u < norm3 v \<longleftrightarrow> dot u u < dot v v"
  by (simp add: norm3_def)

lemma minus_eq_0_iff: "b - a = Vector3 0 0 0 \<longleftrightarrow> a = (b :: point3d)"
  by (cases a; cases b) (auto simp: minus_point3d_def)

lemma dot_minus_left: "dot (a - b) c = dot a c - dot b c"
  by (simp add: dot_def minus_point3d_def algebra_simps)

lemma dot_minus_right: "dot c (a - b) = dot c a - dot c b"
  by (simp add: dot_def minus_point3d_def algebra_simps)

lemma dot_plus_left: "dot (a + b) c = dot a c + dot b c"
  by (simp add: dot_def plus_point3d_def algebra_simps)

lemma dot_plus_right: "dot c (a + b) = dot c a + dot c b"
  by (simp add: dot_def plus_point3d_def algebra_simps)

lemma dot_scale_left: "dot (scale a k) c = k * dot a c"
  by (simp add: dot_def scale_def algebra_simps)

lemma dot_scale_right: "dot c (scale a k) = k * dot c a"
  by (simp add: dot_def scale_def algebra_simps)

lemmas dot_simps = dot_minus_left dot_minus_right dot_plus_left dot_plus_right
  dot_scale_left dot_scale_right

lemma norm3_scale: "norm3 (scale v k) = \<bar>k\<bar> * norm3 v"
proof -
  have "dot (scale v k) (scale v k) = (k * k) * dot v v"
    by (simp add: dot_simps)
  then show ?thesis
    by (simp add: norm3_def real_sqrt_mult)
qed

lemma rel_position_eq:
  "rel_position obs_path agent_path \<alpha> =
     (start_point agent_path - start_point obs_path)
       + scale ((end_point agent_path - end_point obs_path) - (start_point agent_path - start_point obs_path)) \<alpha>"
  by (simp add: rel_position_def plus_point3d_def minus_point3d_def scale_def algebra_simps)

lemma minus_zero_point [simp]: "a - Vector3 0 0 0 = a"
  by (cases a) (simp add: minus_point3d_def)

lemma plus_zero_point [simp]: "a + Vector3 0 0 0 = a"
  by (cases a) (simp add: plus_point3d_def)

lemma scale_zero [simp]: "scale v 0 = Vector3 0 0 0"
  by (simp add: scale_def)

lemma scale_one [simp]: "scale v 1 = v"
  by (cases v) (simp add: scale_def)

lemma scale_scale: "scale (scale v k) m = scale v (k * m)"
  by (simp add: scale_def algebra_simps)

lemma plus_minus_cancel: "a + (b - a) = (b :: point3d)"
  by (cases a; cases b) (simp add: plus_point3d_def minus_point3d_def)

lemma minus_self_point [simp]: "a - a = Vector3 0 0 (0 :: real)"
  by (simp add: minus_point3d_def)

lemma scale_zero_left [simp]: "scale (Vector3 0 0 0) k = Vector3 0 0 0"
  by (simp add: scale_def)

lemma norm3_zero [simp]: "norm3 (Vector3 0 0 0) = 0"
  by (simp add: norm3_def dot_def)

lemma norm3_minus_commute: "norm3 (a - b) = norm3 (b - a)"
  using distance_commute [of a b] by (simp add: distance_def)

lemma plus_minus_cancel_left: "(a + d) - a = (d :: point3d)"
  by (cases a; cases d) (simp add: plus_point3d_def minus_point3d_def)

lemma norm3_le_iff_sq: "0 \<le> r \<Longrightarrow> norm3 v \<le> r \<longleftrightarrow> dot v v \<le> r * r"
  by (metis norm3_def real_sqrt_le_iff real_sqrt_abs2 abs_of_nonneg)

lemma norm3_eq_iff_sq: "0 \<le> r \<Longrightarrow> norm3 v = r \<longleftrightarrow> dot v v = r * r"
  by (metis norm3_def norm3_mult_self real_sqrt_abs2 abs_of_nonneg)

section \<open>The geometry kernel\<close>

subsection \<open>A point and a ray\<close>

text \<open>
  Claim C2: when the point projects behind the start of the ray, the routine should return
  the distance to the start of the ray and the start of the ray itself as the closest point
  on the ray. The source fills in the distance and the point, and hands out
  \<open>ray_closest_point\<close> as it was default-constructed. For the point \<open>(0, 1, 1)\<close> and the ray
  from \<open>(1, 1, 1)\<close> along \<open>(1, 0, 0)\<close>, the point lies behind the start, the direction is a
  unit vector, and the closest point returned is the origin instead of \<open>(1, 1, 1)\<close>.
\<close>

theorem ray_behind_start_closest_point2:
  "dot (Vector3 0 1 1 - Vector3 1 1 1) (Vector3 1 0 0) < 0
   \<and> norm3 (Vector3 1 0 0) = 1
   \<and> closest_point2
        (closestPointsBetweenPointAndRay (Vector3 0 1 1) (Vector3 1 1 1) (Vector3 1 0 0))
       = Vector3 0 0 0
   \<and> closest_point2
        (closestPointsBetweenPointAndRay (Vector3 0 1 1) (Vector3 1 1 1) (Vector3 1 0 0))
       \<noteq> Vector3 1 1 1"
  by (simp add: closestPointsBetweenPointAndRay_def vec_defs)

text \<open>
  In that branch the result never depends on where the ray starts, and the distance it
  carries is the distance to the start of the ray.
\<close>

lemma ray_behind_start:
  assumes "dot (point - ray_start) ray_direction < 0"
  shows "closestPointsBetweenPointAndRay point ray_start ray_direction
           = \<lparr>dist = distance point ray_start, closest_point1 = point,
              closest_point2 = Vector3 0 0 0\<rparr>"
  using assms
  by (simp add: closestPointsBetweenPointAndRay_def Let_def distance_def zero_point3d_def)

subsection \<open>Consistency of the distance with the two points\<close>

text \<open>
  Claim C9: the distance of every result should be the distance between its two points.
  At the input above the ray routine returns distance \<open>1\<close> for two points that are
  \<open>sqrt 2\<close> apart.
\<close>

theorem ray_behind_start_dist_inconsistent:
  "dist (closestPointsBetweenPointAndRay (Vector3 0 1 1) (Vector3 1 1 1) (Vector3 1 0 0)) = 1
   \<and> distance
        (closest_point1
           (closestPointsBetweenPointAndRay (Vector3 0 1 1) (Vector3 1 1 1) (Vector3 1 0 0)))
        (closest_point2
           (closestPointsBetweenPointAndRay (Vector3 0 1 1) (Vector3 1 1 1) (Vector3 1 0 0)))
       = sqrt 2
   \<and> sqrt 2 \<noteq> 1"
  by (simp add: closestPointsBetweenPointAndRay_def vec_defs)

text \<open>The routines for a point and a line, and for a point and a segment, are consistent.\<close>

lemma closestPointsBetweenPointAndLine_consistent:
  "dist (closestPointsBetweenPointAndLine p lp d)
     = distance (closest_point1 (closestPointsBetweenPointAndLine p lp d))
                (closest_point2 (closestPointsBetweenPointAndLine p lp d))"
  by (simp add: closestPointsBetweenPointAndLine_def Let_def vec_defs algebra_simps)

lemma closestPointsBetweenPointAndLineSegment_consistent:
  "dist (closestPointsBetweenPointAndLineSegment p l)
     = distance (closest_point1 (closestPointsBetweenPointAndLineSegment p l))
                (closest_point2 (closestPointsBetweenPointAndLineSegment p l))"
proof -
  have *: "norm3 r = distance p (r + p)" for r
    by (simp add: vec_defs algebra_simps)
  show ?thesis
    by (simp add: closestPointsBetweenPointAndLineSegment_def Let_def * split: prod.splits)
qed

subsection \<open>The closest approach of two linear paths\<close>

text \<open>
  For \<open>a \<noteq> b\<close> the squared distance of the origin from the point at the fraction \<open>k\<close>
  of the segment is the squared distance of the foot plus the square of
  \<open>k * length + along\<close>.
\<close>

lemma length_pos: "a \<noteq> b \<Longrightarrow> 0 < norm3 (b - a)"
  by (simp add: norm3_pos_iff minus_eq_0_iff)

lemma n_line_eq: "a \<noteq> b \<Longrightarrow> n_line a b = scale (b - a) (1 / norm3 (b - a))"
  by (simp add: n_line_def normalized_def length_pos)

lemma n_line_unit:
  assumes "a \<noteq> b"
  shows "dot (n_line a b) (n_line a b) = 1"
proof -
  have pos: "0 < norm3 (b - a)" using assms by (rule length_pos)
  have "dot (n_line a b) (n_line a b)
          = (1 / norm3 (b - a)) * (1 / norm3 (b - a)) * dot (b - a) (b - a)"
    using assms by (simp add: n_line_eq dot_scale_left dot_scale_right)
  also have "\<dots> = (1 / norm3 (b - a)) * (1 / norm3 (b - a)) * (norm3 (b - a) * norm3 (b - a))"
    by (simp only: norm3_mult_self)
  also have "\<dots> = 1"
    using pos by simp
  finally show ?thesis .
qed

lemma scale_n_line:
  assumes "a \<noteq> b"
  shows "scale (b - a) k = scale (n_line a b) (k * norm3 (b - a))"
proof -
  have "0 < norm3 (b - a)" using assms by (rule length_pos)
  then show ?thesis
    using assms by (simp add: n_line_eq scale_scale)
qed

lemma foot_perp:
  assumes "a \<noteq> b"
  shows "dot (foot a b) (n_line a b) = 0"
  using n_line_unit [OF assms]
  by (simp add: foot_def along_def dot_simps)

lemma foot_norm:
  assumes "a \<noteq> b"
  shows "dot (foot a b) (foot a b) = dot a a - along a b * along a b"
  using n_line_unit [OF assms]
  by (simp add: foot_def along_def dot_simps dot_commute algebra_simps)

lemma point_on_line_eq:
  "a + scale (b - a) k = foot a b + scale (n_line a b) (k * norm3 (b - a) + along a b)"
  if "a \<noteq> b"
proof -
  have "scale (b - a) k = scale (n_line a b) (k * norm3 (b - a))"
    using that by (rule scale_n_line)
  then show ?thesis
    by (simp add: foot_def) (simp add: plus_point3d_def minus_point3d_def scale_def algebra_simps)
qed

lemma point_on_line_norm:
  assumes "a \<noteq> b"
  shows "dot (a + scale (b - a) k) (a + scale (b - a) k)
           = dot (foot a b) (foot a b) + (k * norm3 (b - a) + along a b)\<^sup>2"
  using n_line_unit [OF assms] foot_perp [OF assms]
  by (simp add: point_on_line_eq [OF assms] dot_simps dot_commute [of "n_line a b" "foot a b"]
        power2_eq_square)

lemma start_norm:
  assumes "a \<noteq> b"
  shows "dot a a = dot (foot a b) (foot a b) + (along a b)\<^sup>2"
  using point_on_line_norm [OF assms, of 0] by simp

lemma end_norm:
  assumes "a \<noteq> b"
  shows "dot b b = dot (foot a b) (foot a b) + (norm3 (b - a) + along a b)\<^sup>2"
  using point_on_line_norm [OF assms, of 1] by (simp add: plus_minus_cancel)

lemma foot_between:
  assumes "a \<noteq> b"
  shows "dot (foot a b - a) (foot a b - b) = along a b * (along a b + norm3 (b - a))"
proof -
  have b: "b = a + scale (n_line a b) (norm3 (b - a))"
    using scale_n_line [OF assms, of 1] plus_minus_cancel [of a b] by simp
  have 1: "foot a b - a = scale (n_line a b) (- along a b)"
    by (simp add: foot_def minus_point3d_def scale_def)
  have "foot a b - (a + scale (n_line a b) (norm3 (b - a)))
          = scale (n_line a b) (- (along a b + norm3 (b - a)))"
    by (simp add: foot_def minus_point3d_def plus_point3d_def scale_def algebra_simps)
  with b have 2: "foot a b - b = scale (n_line a b) (- (along a b + norm3 (b - a)))"
    by simp
  show ?thesis
    unfolding 1 2 using n_line_unit [OF assms]
    by (simp add: dot_simps algebra_simps)
qed

lemma closest_alpha_range: "0 \<le> closest_alpha a b \<and> closest_alpha a b \<le> 1"
proof (cases "a = b")
  case True
  then show ?thesis by (simp add: closest_alpha_def)
next
  case False
  then have "0 < norm3 (b - a)" by (rule length_pos)
  then show ?thesis
    by (auto simp: closest_alpha_def field_simps)
qed

lemma foot_on_line:
  assumes "a \<noteq> b"
  shows "a + scale (b - a) (- (along a b / norm3 (b - a))) = foot a b"
proof -
  have "0 < norm3 (b - a)" using assms by (rule length_pos)
  then show ?thesis
    by (simp add: point_on_line_eq [OF assms])
qed

lemma segment_closest_point:
  "closestPointsBetweenPointAndLineSegment (Vector3 0 0 0) \<lparr>start_point = a, end_point = b\<rparr>
     = \<lparr>dist = norm3 (a + scale (b - a) (closest_alpha a b)),
        closest_point1 = Vector3 0 0 0,
        closest_point2 = a + scale (b - a) (closest_alpha a b)\<rparr>"
proof (cases "a = b")
  case True
  then show ?thesis
    by (simp add: closestPointsBetweenPointAndLineSegment_def closest_alpha_def)
next
  case False
  have pos: "0 < norm3 (b - a)" using False by (rule length_pos)
  note sn = start_norm [OF False] and en = end_norm [OF False]
    and fb = foot_between [OF False]
  have c_def: "a - scale (normalized (b - a)) (dot a (normalized (b - a))) = foot a b"
    by (simp add: foot_def along_def n_line_def)
  consider (inside) "- norm3 (b - a) < along a b" "along a b < 0"
    | (before) "0 \<le> along a b" | (after) "along a b \<le> - norm3 (b - a)"
    by linarith
  then show ?thesis
  proof cases
    case inside
    then have neg: "along a b * (along a b + norm3 (b - a)) < 0"
      by (simp add: mult_less_0_iff)
    have "0 < (along a b)\<^sup>2" "0 < (norm3 (b - a) + along a b)\<^sup>2"
      using inside by simp_all
    then have less: "norm3 (foot a b) < norm3 a" "norm3 (foot a b) < norm3 b"
      using sn en by (simp_all add: norm3_less_iff)
    show ?thesis
      using False inside neg less
      by (simp add: closestPointsBetweenPointAndLineSegment_def Let_def c_def fb
            closest_alpha_def foot_on_line)
  next
    case before
    then have nonneg: "\<not> along a b * (along a b + norm3 (b - a)) < 0"
      using pos by (simp add: mult_less_0_iff)
    have "(along a b)\<^sup>2 \<le> (norm3 (b - a) + along a b)\<^sup>2"
    proof -
      have "(norm3 (b - a) + along a b)\<^sup>2 - (along a b)\<^sup>2
              = norm3 (b - a) * (2 * along a b + norm3 (b - a))"
        by (simp add: power2_eq_square algebra_simps)
      moreover have "0 \<le> norm3 (b - a) * (2 * along a b + norm3 (b - a))"
        using before pos by (intro mult_nonneg_nonneg) linarith+
      ultimately show ?thesis by linarith
    qed
    then have le: "norm3 a \<le> norm3 b"
      using sn en by (simp add: norm3_le_iff)
    show ?thesis
      using False before nonneg le pos
      by (simp add: closestPointsBetweenPointAndLineSegment_def Let_def c_def fb
            closest_alpha_def)
  next
    case after
    then have nonneg: "\<not> along a b * (along a b + norm3 (b - a)) < 0"
      using pos by (simp add: mult_less_0_iff)
    have "(norm3 (b - a) + along a b)\<^sup>2 < (along a b)\<^sup>2"
    proof -
      have "(along a b)\<^sup>2 - (norm3 (b - a) + along a b)\<^sup>2
              = norm3 (b - a) * (- 2 * along a b - norm3 (b - a))"
        by (simp add: power2_eq_square algebra_simps)
      moreover have "0 < norm3 (b - a) * (- 2 * along a b - norm3 (b - a))"
        using after pos by (intro mult_pos_pos) linarith+
      ultimately show ?thesis by linarith
    qed
    then have less: "norm3 b < norm3 a"
      using sn en by (simp add: norm3_less_iff)
    have neg: "\<not> 0 \<le> along a b" "\<not> - norm3 (b - a) < along a b"
      using after pos by linarith+
    show ?thesis
      using False neg nonneg less
      by (simp add: closestPointsBetweenPointAndLineSegment_def Let_def c_def fb
            closest_alpha_def plus_minus_cancel)
  qed
qed

lemma segment_closest_minimal:
  assumes "0 \<le> k" and "k \<le> 1"
  shows "norm3 (a + scale (b - a) (closest_alpha a b)) \<le> norm3 (a + scale (b - a) k)"
proof (cases "a = b")
  case True
  then show ?thesis by simp
next
  case False
  have pos: "0 < norm3 (b - a)" using False by (rule length_pos)
  have kl: "0 \<le> k * norm3 (b - a)" "k * norm3 (b - a) \<le> norm3 (b - a)"
    using assms pos by (simp_all add: mult_left_le_one_le)
  have sq: "x\<^sup>2 \<le> y\<^sup>2" if "\<bar>x\<bar> \<le> \<bar>y\<bar>" for x y :: real
    using that by (simp add: abs_le_square_iff)
  consider (inside) "- norm3 (b - a) < along a b" "along a b < 0"
    | (before) "0 \<le> along a b" | (after) "along a b \<le> - norm3 (b - a)"
    by linarith
  then have "\<bar>closest_alpha a b * norm3 (b - a) + along a b\<bar>
               \<le> \<bar>k * norm3 (b - a) + along a b\<bar>"
  proof cases
    case inside
    then show ?thesis using False pos by (simp add: closest_alpha_def)
  next
    case before
    then have "closest_alpha a b = 0" using False pos by (simp add: closest_alpha_def)
    then show ?thesis using before kl by simp
  next
    case after
    then have "closest_alpha a b = 1" using False pos by (simp add: closest_alpha_def)
    then show ?thesis using after kl by simp
  qed
  then have "(closest_alpha a b * norm3 (b - a) + along a b)\<^sup>2
          \<le> (k * norm3 (b - a) + along a b)\<^sup>2"
    by (rule sq)
  then show ?thesis
    by (simp add: norm3_le_iff point_on_line_norm [OF False])
qed

lemma linePaths_eq:
  "closestPointsBetweenLinePaths obs_path agent_path =
     (let \<alpha> = closest_alpha (start_point agent_path - start_point obs_path)
                              (end_point agent_path - end_point obs_path)
      in \<lparr>dist = norm3 (rel_position obs_path agent_path \<alpha>),
          closest_point1 =
            start_point obs_path + scale (end_point obs_path - start_point obs_path) \<alpha>,
          closest_point2 =
            start_point agent_path + scale (end_point agent_path - start_point agent_path) \<alpha>\<rparr>)"
proof -
  define a where "a = start_point agent_path - start_point obs_path"
  define b where "b = end_point agent_path - end_point obs_path"
  have rel: "minus_Line agent_path obs_path = \<lparr>start_point = a, end_point = b\<rparr>"
    by (simp add: minus_Line_def a_def b_def)
  have len: "length_Line \<lparr>start_point = a, end_point = b\<rparr> = norm3 (b - a)"
    by (simp add: length_Line_def distance_def norm3_minus_commute)
  have range: "0 \<le> closest_alpha a b"
    using closest_alpha_range [of a b] by simp
  have alpha_pos: "norm3 ((a + scale (b - a) (closest_alpha a b)) - a) / norm3 (b - a)
                     = closest_alpha a b" if "0 < norm3 (b - a)"
    using that range by (simp add: plus_minus_cancel_left norm3_scale)
  have alpha_zero: "closest_alpha a b = 0" if "\<not> 0 < norm3 (b - a)"
  proof -
    from that have "a = b" using length_pos [of a b] by blast
    then show ?thesis by (simp add: closest_alpha_def)
  qed
  show ?thesis
  proof (cases "0 < norm3 (b - a)")
    case True
    then show ?thesis
      unfolding closestPointsBetweenLinePaths_def rel
      by (simp add: Let_def segment_closest_point len alpha_pos rel_position_eq
            flip: a_def b_def)
  next
    case False
    then show ?thesis
      unfolding closestPointsBetweenLinePaths_def rel
      by (simp add: Let_def segment_closest_point len alpha_zero rel_position_eq
            flip: a_def b_def)
  qed
qed

text \<open>
  The distance returned for two paths is attained on the relative path, is its minimum,
  and is the distance between the two points returned.
\<close>

lemma linePaths_dist_minimal:
  assumes "0 \<le> \<alpha>" and "\<alpha> \<le> 1"
  shows "dist (closestPointsBetweenLinePaths obs_path agent_path)
           \<le> norm3 (rel_position obs_path agent_path \<alpha>)"
  using segment_closest_minimal [OF assms]
  by (simp add: linePaths_eq Let_def rel_position_eq)

lemma linePaths_consistent:
  "dist (closestPointsBetweenLinePaths line1 line2)
     = distance (closest_point2 (closestPointsBetweenLinePaths line1 line2))
                (closest_point1 (closestPointsBetweenLinePaths line1 line2))"
  by (simp add: linePaths_eq Let_def rel_position_def distance_def)

lemma linePaths_dist_attained:
  "\<exists>\<alpha>. 0 \<le> \<alpha> \<and> \<alpha> \<le> 1
       \<and> dist (closestPointsBetweenLinePaths obs_path agent_path)
           = norm3 (rel_position obs_path agent_path \<alpha>)"
  using closest_alpha_range by (auto simp: linePaths_eq Let_def)

subsection \<open>Two segments\<close>

text \<open>
  The routine for a point and a segment returns the point itself and the point of the
  segment nearest to it.
\<close>

lemma point_eq_iff: "a = b \<longleftrightarrow> px a = px b \<and> py a = py b \<and> pz a = pz b"
  by (cases a; cases b) simp

lemma point_segment_first: "closest_point1 (closestPointsBetweenPointAndLineSegment p l) = p"
  by (simp add: closestPointsBetweenPointAndLineSegment_def Let_def split: prod.splits)

lemma point_segment_translate:
  "closestPointsBetweenPointAndLineSegment p l =
     (let r = closestPointsBetweenPointAndLineSegment (Vector3 0 0 0)
                \<lparr>start_point = start_point l - p, end_point = end_point l - p\<rparr>
      in \<lparr>dist = dist r, closest_point1 = p, closest_point2 = closest_point2 r + p\<rparr>)"
  by (simp add: closestPointsBetweenPointAndLineSegment_def Let_def split: prod.splits)

lemma point_segment_closest:
  "\<exists>\<alpha>. 0 \<le> \<alpha> \<and> \<alpha> \<le> 1
      \<and> closest_point2 (closestPointsBetweenPointAndLineSegment p l)
           = start_point l + scale (end_point l - start_point l) \<alpha>
      \<and> (\<forall>k. 0 \<le> k \<and> k \<le> 1 \<longrightarrow>
            dist (closestPointsBetweenPointAndLineSegment p l)
              \<le> distance p (start_point l + scale (end_point l - start_point l) k))"
proof -
  define a b where "a = start_point l - p" and "b = end_point l - p"
  define \<alpha> where "\<alpha> = closest_alpha a b"
  have ba: "b - a = end_point l - start_point l"
    by (simp add: a_def b_def point_eq_iff minus_point3d_def)
  have shift: "a + scale (b - a) k + p = start_point l + scale (end_point l - start_point l) k"
    for k
    by (simp add: ba) (simp add: a_def point_eq_iff minus_point3d_def plus_point3d_def)
  have norm: "norm3 (a + scale (b - a) k)
                = distance p (start_point l + scale (end_point l - start_point l) k)" for k
  proof -
    have "a + scale (b - a) k
            = (start_point l + scale (end_point l - start_point l) k) - p"
      by (simp add: ba) (simp add: a_def point_eq_iff minus_point3d_def plus_point3d_def)
    then show ?thesis
      by (simp add: distance_def norm3_minus_commute [of p])
  qed
  have r: "closestPointsBetweenPointAndLineSegment p l =
             \<lparr>dist = norm3 (a + scale (b - a) \<alpha>), closest_point1 = p,
              closest_point2 = a + scale (b - a) \<alpha> + p\<rparr>"
    by (subst point_segment_translate)
       (simp add: Let_def segment_closest_point \<alpha>_def flip: a_def b_def)
  have "0 \<le> \<alpha> \<and> \<alpha> \<le> 1" unfolding \<alpha>_def by (rule closest_alpha_range)
  moreover have "closest_point2 (closestPointsBetweenPointAndLineSegment p l)
           = start_point l + scale (end_point l - start_point l) \<alpha>"
    by (simp add: r shift)
  moreover have "dist (closestPointsBetweenPointAndLineSegment p l)
              \<le> distance p (start_point l + scale (end_point l - start_point l) k)"
    if "0 \<le> k \<and> k \<le> 1" for k
    using segment_closest_minimal [of k a b] that by (simp add: r \<alpha>_def norm)
  ultimately show ?thesis by blast
qed

text \<open>
  The parallel block, for two segments whose directions are exactly parallel: in the
  coordinate along the first segment it returns a pair of points of the two segments at
  the smallest distance.
\<close>

lemma lagrange: "dot (cross u w) (cross u w) = dot u u * dot w w - (dot u w)\<^sup>2"
  by (simp add: dot_def cross_def power2_eq_square algebra_simps)

lemma unit_direction:
  assumes "0 < norm3 v"
  shows "scale v (1 / norm3 v) = normalized v" and "dot (normalized v) (normalized v) = 1"
proof -
  show "scale v (1 / norm3 v) = normalized v"
    using assms by (simp add: normalized_def)
  have "dot (normalized v) (normalized v) = (1 / norm3 v) * (1 / norm3 v) * dot v v"
    using assms by (simp add: normalized_def dot_scale_left dot_scale_right)
  also have "\<dots> = (1 / norm3 v) * (1 / norm3 v) * (norm3 v * norm3 v)"
    by (simp only: norm3_mult_self)
  also have "\<dots> = 1" using assms by simp
  finally show "dot (normalized v) (normalized v) = 1" .
qed

lemma parallel_direction:
  assumes unit: "dot n n = 1" and par: "cross n v = Vector3 0 0 0"
  shows "v = scale n (dot v n)"
proof -
  define w where "w = v - scale n (dot v n)"
  have "dot (cross n v) (cross n v) = dot n n * dot v v - (dot n v)\<^sup>2"
    by (rule lagrange)
  with unit par have vv: "dot v v = (dot v n)\<^sup>2"
    by (simp add: dot_def [of "Vector3 0 0 0"] dot_commute [of n v])
  have "dot w w = dot v v - (dot v n)\<^sup>2"
    using unit by (simp add: w_def dot_simps dot_commute [of n v] power2_eq_square algebra_simps)
  with vv have "dot w w = 0" by simp
  then have "w = Vector3 0 0 0" by (simp add: dot_self_eq_0_iff)
  then show ?thesis
    by (simp add: w_def minus_eq_0_iff)
qed

lemma interval_fraction:
  fixes ta m u :: real
  assumes "min ta (ta + m) \<le> u" and "u \<le> max ta (ta + m)"
  shows "\<exists>\<beta>. 0 \<le> \<beta> \<and> \<beta> \<le> 1 \<and> u = ta + \<beta> * m"
proof (cases "m = 0")
  case True
  with assms have "u = ta" by simp
  with True show ?thesis by (intro exI [of _ 0]) simp
next
  case False
  have "0 \<le> (u - ta) / m \<and> (u - ta) / m \<le> 1"
  proof (cases "0 < m")
    case True
    with assms show ?thesis by (simp add: field_simps)
  next
    case neg: False
    with False have "m < 0" by simp
    with assms show ?thesis by (simp add: field_simps)
  qed
  moreover have "u = ta + (u - ta) / m * m" using False by simp
  ultimately show ?thesis by blast
qed

lemma fraction_in_interval:
  fixes ta m \<beta> :: real
  assumes "0 \<le> \<beta>" and "\<beta> \<le> 1"
  shows "min ta (ta + m) \<le> ta + \<beta> * m \<and> ta + \<beta> * m \<le> max ta (ta + m)"
proof (cases "0 \<le> m")
  case True
  then have "0 \<le> \<beta> * m" "\<beta> * m \<le> m"
    using assms by (simp_all add: mult_left_le_one_le)
  with True show ?thesis by simp
next
  case False
  then have "m \<le> \<beta> * m" "\<beta> * m \<le> 0"
    using assms by (simp_all add: mult_le_0_iff mult_left_le_one_le field_simps)
  with False show ?thesis by simp
qed

lemma parallel_coords:
  fixes A B :: Line and n delta :: point3d and len ta tb :: real
  assumes unit: "dot n n = 1" and len: "0 < len"
      and e1: "end_point A = start_point A + scale n len"
      and s2: "start_point B = (start_point A + scale n ta) + delta"
      and e2: "end_point B = (start_point A + scale n tb) + delta"
      and dn: "dot delta n = 0"
  shows "parallelLineSegments A B =
           \<lparr>dist = distance (start_point A + scale n (par_t len ta tb))
                            ((start_point A + scale n (par_u len ta tb)) + delta),
            closest_point1 = start_point A + scale n (par_t len ta tb),
            closest_point2 = (start_point A + scale n (par_u len ta tb)) + delta\<rparr>"
proof -
  define s1 where "s1 = start_point A"
  define v1 where "v1 = end_point A - s1"
  have v1: "v1 = scale n len"
    by (simp add: v1_def e1 plus_minus_cancel_left flip: s1_def)
  have "norm3 n = 1" using unit by (simp add: norm3_eq_iff_sq)
  then have nv: "norm3 v1 = len" using len by (simp add: v1 norm3_scale)
  have n: "scale v1 (1 / len) = n"
    using len by (simp add: v1 scale_scale)
  have d2: "start_point B - s1 = scale n ta + delta"
    and d2e: "end_point B - s1 = scale n tb + delta"
    by (simp_all add: s2 e2 s1_def point_eq_iff plus_point3d_def minus_point3d_def)
  have ta: "dot (start_point B - s1) n = ta" and tb: "dot (end_point B - s1) n = tb"
    using unit dn by (simp_all add: d2 d2e dot_plus_left dot_scale_left)
  have delta: "(start_point B - s1) - scale n ta = delta"
    by (subst d2) (simp add: point_eq_iff plus_point3d_def minus_point3d_def)
  define bmin bmax where "bmin = min ta tb" and "bmax = max ta tb"
  define p2min p2max where "p2min = (if tb < ta then end_point B else start_point B)"
    and "p2max = (if tb < ta then start_point B else end_point B)"
  have p2min: "p2min = (s1 + scale n bmin) + delta"
    and p2max: "p2max = (s1 + scale n bmax) + delta"
    using s2 e2 by (auto simp: p2min_def p2max_def bmin_def bmax_def min_def max_def s1_def)
  define P Q where "P = s1 + scale n (par_t len ta tb)"
    and "Q = (s1 + scale n (par_u len ta tb)) + delta"
  have br: "(if tb < ta then (tb, ta, end_point B, start_point B)
             else (ta, tb, start_point B, end_point B)) = (bmin, bmax, p2min, p2max)"
    by (simp add: bmin_def bmax_def p2min_def p2max_def min_def max_def)
  have pts: "(if len < bmin then (end_point A, p2min)
              else if bmax < 0 then (s1, p2max)
              else if bmin < 0 then (s1, s1 + delta)
              else (p2min - delta, p2min)) = (P, Q)"
    by (simp add: P_def Q_def par_t_def par_u_def Let_def e1 p2min p2max
          flip: bmin_def bmax_def s1_def)
       (simp add: point_eq_iff plus_point3d_def minus_point3d_def)
  have "parallelLineSegments A B =
          (case (if dot (end_point B - s1) (scale v1 (1 / norm3 v1))
                      < dot (start_point B - s1) (scale v1 (1 / norm3 v1))
                 then (dot (end_point B - s1) (scale v1 (1 / norm3 v1)),
                       dot (start_point B - s1) (scale v1 (1 / norm3 v1)),
                       end_point B, start_point B)
                 else (dot (start_point B - s1) (scale v1 (1 / norm3 v1)),
                       dot (end_point B - s1) (scale v1 (1 / norm3 v1)),
                       start_point B, end_point B)) of
             (bound_min, bound_max, p2_min, p2_max) \<Rightarrow>
               case (if norm3 v1 < bound_min then (end_point A, p2_min)
                     else if bound_max < 0 then (s1, p2_max)
                     else if bound_min < 0
                     then (s1, s1 + ((start_point B - s1)
                                  - scale (scale v1 (1 / norm3 v1))
                                      (dot (start_point B - s1)
                                         (scale v1 (1 / norm3 v1)))))
                     else (p2_min - ((start_point B - s1)
                                  - scale (scale v1 (1 / norm3 v1))
                                      (dot (start_point B - s1)
                                         (scale v1 (1 / norm3 v1)))), p2_min)) of
                 (p1, p2) \<Rightarrow>
                   \<lparr>dist = distance p1 p2, closest_point1 = p1, closest_point2 = p2\<rparr>)"
    by (simp only: parallelLineSegments_def Let_def v1_def s1_def)
  also have "\<dots> = \<lparr>dist = distance P Q, closest_point1 = P, closest_point2 = Q\<rparr>"
    by (simp only: nv n ta tb delta br prod.case pts)
  finally show ?thesis by (simp add: P_def Q_def s1_def)
qed

lemma parallel_segments_closest:
  fixes line1 line2 :: Line
  assumes ne: "start_point line1 \<noteq> end_point line1"
      and par: "cross (end_point line1 - start_point line1)
                      (end_point line2 - start_point line2) = Vector3 0 0 0"
  shows "\<exists>\<alpha> \<beta>. 0 \<le> \<alpha> \<and> \<alpha> \<le> 1 \<and> 0 \<le> \<beta> \<and> \<beta> \<le> 1
           \<and> closest_point1 (parallelLineSegments line1 line2)
               = start_point line1 + scale (end_point line1 - start_point line1) \<alpha>
           \<and> closest_point2 (parallelLineSegments line1 line2)
               = start_point line2 + scale (end_point line2 - start_point line2) \<beta>
           \<and> dist (parallelLineSegments line1 line2)
               = distance (closest_point1 (parallelLineSegments line1 line2))
                          (closest_point2 (parallelLineSegments line1 line2))
           \<and> (\<forall>\<alpha>' \<beta>'. 0 \<le> \<alpha>' \<and> \<alpha>' \<le> 1 \<and> 0 \<le> \<beta>' \<and> \<beta>' \<le> 1 \<longrightarrow>
                 dist (parallelLineSegments line1 line2)
                   \<le> distance
                        (start_point line1 + scale (end_point line1 - start_point line1) \<alpha>')
                        (start_point line2 + scale (end_point line2 - start_point line2) \<beta>'))"
proof -
  define s1 e1 s2 e2 where "s1 = start_point line1" and "e1 = end_point line1"
    and "s2 = start_point line2" and "e2 = end_point line2"
  define v1 v2 where "v1 = e1 - s1" and "v2 = e2 - s2"
  define l1 where "l1 = norm3 v1"
  define n where "n = scale v1 (1 / l1)"
  define m where "m = dot v2 n"
  define ta tb where "ta = dot (s2 - s1) n" and "tb = dot (e2 - s1) n"
  define delta where "delta = (s2 - s1) - scale n ta"
  have l1: "0 < l1"
    unfolding l1_def v1_def using ne length_pos [of s1 e1] by (simp add: s1_def e1_def)
  have n_norm: "n = normalized v1" and unit: "dot n n = 1"
    using unit_direction [of v1] l1 by (simp_all add: n_def l1_def)
  have "cross n v2 = scale (cross v1 v2) (1 / l1)"
    using cross_scale [of v1 "1 / l1" v2 1] by (simp add: n_def)
  with par have "cross n v2 = Vector3 0 0 0"
    by (simp add: v1_def v2_def s1_def e1_def s2_def e2_def)
  from parallel_direction [OF unit this] have v2: "v2 = scale n m"
    by (simp add: m_def)
  have v1: "v1 = scale n l1"
    using l1 by (simp add: n_def scale_scale)
  have tb: "tb = ta + m"
  proof -
    have "e2 - s1 = (s2 - s1) + v2"
      by (simp add: v2_def point_eq_iff plus_point3d_def minus_point3d_def)
    then show ?thesis by (simp add: tb_def ta_def m_def dot_plus_left)
  qed
  have dn: "dot delta n = 0"
    using unit by (simp add: delta_def dot_simps ta_def)
  have s2: "s2 = (s1 + scale n ta) + delta"
    by (simp add: delta_def point_eq_iff plus_point3d_def minus_point3d_def)
  have e2: "e2 = (s1 + scale n tb) + delta"
  proof -
    have "e2 = s2 + v2" by (simp add: v2_def plus_minus_cancel)
    also have "\<dots> = (s1 + scale n (ta + m)) + delta"
      by (subst s2, subst v2)
         (simp add: point_eq_iff plus_point3d_def scale_def algebra_simps)
    finally show ?thesis by (simp add: tb)
  qed
  have e1: "e1 = s1 + scale n l1"
  proof -
    have "e1 = s1 + v1" by (simp add: v1_def plus_minus_cancel)
    also have "\<dots> = s1 + scale n l1" by (subst v1) simp
    finally show ?thesis .
  qed
  have on1: "s1 + scale v1 \<alpha> = s1 + scale n (\<alpha> * l1)" for \<alpha>
    by (subst v1) (simp add: scale_scale mult.commute)
  have on2: "s2 + scale v2 \<beta> = (s1 + scale n (ta + \<beta> * m)) + delta" for \<beta>
    by (subst s2, subst v2)
       (simp add: scale_scale point_eq_iff plus_point3d_def scale_def algebra_simps)
  have dist_sq: "dot ((s1 + scale n t) - ((s1 + scale n u) + delta))
                     ((s1 + scale n t) - ((s1 + scale n u) + delta))
                   = (t - u)\<^sup>2 + dot delta delta" for t u
  proof -
    have "(s1 + scale n t) - ((s1 + scale n u) + delta) = scale n (t - u) - delta"
      by (simp add: point_eq_iff plus_point3d_def minus_point3d_def scale_def algebra_simps)
    then show ?thesis
      using unit dn by (simp add: dot_simps dot_commute [of n delta] power2_eq_square)
  qed
  have dist_mono: "distance (s1 + scale n t) ((s1 + scale n u) + delta)
                     \<le> distance (s1 + scale n t') ((s1 + scale n u') + delta)"
    if "\<bar>t - u\<bar> \<le> \<bar>t' - u'\<bar>" for t u t' u'
  proof -
    from that have "(t - u)\<^sup>2 \<le> (t' - u')\<^sup>2" by (simp add: abs_le_square_iff)
    then show ?thesis by (simp add: distance_def norm3_def dist_sq)
  qed
  define bmin bmax where "bmin = min ta tb" and "bmax = max ta tb"
  define t u where "t = par_t l1 ta tb" and "u = par_u l1 ta tb"
  define P Q where "P = s1 + scale n t" and "Q = (s1 + scale n u) + delta"
  have result: "parallelLineSegments line1 line2
                  = \<lparr>dist = distance P Q, closest_point1 = P, closest_point2 = Q\<rparr>"
    unfolding P_def Q_def t_def u_def s1_def
    by (rule parallel_coords [OF unit l1])
       (simp_all add: e1 [unfolded s1_def e1_def] s2 [unfolded s1_def s2_def]
          e2 [unfolded s1_def e2_def] dn)
  have le: "bmin \<le> bmax" by (simp add: bmin_def bmax_def)
  have t_range: "0 \<le> t" "t \<le> l1" and u_range: "bmin \<le> u" "u \<le> bmax"
    using l1 le by (auto simp: t_def u_def par_t_def par_u_def Let_def bmin_def bmax_def)
  have minimal: "\<bar>t - u\<bar> \<le> \<bar>t' - u'\<bar>"
    if "0 \<le> t'" "t' \<le> l1" "bmin \<le> u'" "u' \<le> bmax" for t' u'
    using that l1 le
    by (auto simp: t_def u_def par_t_def par_u_def Let_def bmin_def bmax_def)
  obtain \<beta> where \<beta>: "0 \<le> \<beta>" "\<beta> \<le> 1" "u = ta + \<beta> * m"
    using interval_fraction [of ta m u] u_range by (auto simp: bmin_def bmax_def tb)
  have \<alpha>: "0 \<le> t / l1" "t / l1 \<le> 1" "t = t / l1 * l1"
    using t_range l1 by simp_all
  have P: "P = s1 + scale v1 (t / l1)"
    using \<alpha>(3) by (simp add: on1 P_def)
  have Q: "Q = s2 + scale v2 \<beta>"
    by (simp add: on2 Q_def \<beta>(3))
  have all: "distance P Q \<le> distance (s1 + scale v1 \<alpha>') (s2 + scale v2 \<beta>')"
    if "0 \<le> \<alpha>'" "\<alpha>' \<le> 1" "0 \<le> \<beta>'" "\<beta>' \<le> 1" for \<alpha>' \<beta>'
  proof -
    have "0 \<le> \<alpha>' * l1" "\<alpha>' * l1 \<le> l1"
      using that l1 by (simp_all add: mult_left_le_one_le)
    moreover have "bmin \<le> ta + \<beta>' * m" "ta + \<beta>' * m \<le> bmax"
      using fraction_in_interval [OF that(3,4), of ta m] by (simp_all add: bmin_def bmax_def tb)
    ultimately have "\<bar>t - u\<bar> \<le> \<bar>\<alpha>' * l1 - (ta + \<beta>' * m)\<bar>"
      by (rule minimal)
    then show ?thesis
      unfolding on1 on2 P_def Q_def by (rule dist_mono)
  qed
  show ?thesis
    unfolding result
    using \<alpha>(1,2) \<beta>(1,2) P Q all
    by (auto simp: s1_def e1_def s2_def e2_def v1_def v2_def)
qed

text \<open>
  Claim C6: a segment shorter than the epsilon guard reduces the routine to the one for a
  point and a segment, applied to the start of the short segment and the other segment.
  When the first segment is the short one the result is that routine's result as it is:
  the first point is the start of the first segment, the second is the point of the second
  segment nearest to it. When only the second segment is short the two points of that
  routine's result are exchanged: the second point is the start of the second segment and
  the first is the point of the first segment nearest to it. Two longer segments whose
  directions are exactly parallel (their cross product vanishes) are handled by the
  parallel block, for any positive epsilon, and the points it returns lie on the two
  segments at the smallest distance.
\<close>

theorem degenerate_and_parallel_segments:
  "(distance (start_point line1) (end_point line1) < eps \<longrightarrow>
      (\<exists>r \<beta>. closestPointsBetweenLineSegments eps line1 line2 = Inr r
         \<and> r = closestPointsBetweenPointAndLineSegment (start_point line1) line2
         \<and> closest_point1 r = start_point line1
         \<and> 0 \<le> \<beta> \<and> \<beta> \<le> 1
         \<and> closest_point2 r
             = start_point line2 + scale (end_point line2 - start_point line2) \<beta>
         \<and> dist r = distance (closest_point1 r) (closest_point2 r)
         \<and> (\<forall>\<beta>'. 0 \<le> \<beta>' \<and> \<beta>' \<le> 1 \<longrightarrow>
               dist r \<le> distance (start_point line1)
                          (start_point line2
                             + scale (end_point line2 - start_point line2) \<beta>'))))
   \<and> (\<not> distance (start_point line1) (end_point line1) < eps
       \<and> distance (start_point line2) (end_point line2) < eps \<longrightarrow>
      (\<exists>r \<alpha>. closestPointsBetweenLineSegments eps line1 line2 = Inr r
         \<and> closest_point1 r
             = closest_point2 (closestPointsBetweenPointAndLineSegment (start_point line2) line1)
         \<and> closest_point2 r
             = closest_point1 (closestPointsBetweenPointAndLineSegment (start_point line2) line1)
         \<and> dist r = dist (closestPointsBetweenPointAndLineSegment (start_point line2) line1)
         \<and> closest_point2 r = start_point line2
         \<and> 0 \<le> \<alpha> \<and> \<alpha> \<le> 1
         \<and> closest_point1 r
             = start_point line1 + scale (end_point line1 - start_point line1) \<alpha>
         \<and> dist r = distance (closest_point1 r) (closest_point2 r)
         \<and> (\<forall>\<alpha>'. 0 \<le> \<alpha>' \<and> \<alpha>' \<le> 1 \<longrightarrow>
               dist r \<le> distance
                          (start_point line1
                             + scale (end_point line1 - start_point line1) \<alpha>')
                          (start_point line2))))
   \<and> (0 < eps
       \<and> \<not> distance (start_point line1) (end_point line1) < eps
       \<and> \<not> distance (start_point line2) (end_point line2) < eps
       \<and> cross (end_point line1 - start_point line1) (end_point line2 - start_point line2)
           = Vector3 0 0 0 \<longrightarrow>
      (\<exists>r \<alpha> \<beta>. closestPointsBetweenLineSegments eps line1 line2 = Inr r
         \<and> r = parallelLineSegments line1 line2
         \<and> 0 \<le> \<alpha> \<and> \<alpha> \<le> 1 \<and> 0 \<le> \<beta> \<and> \<beta> \<le> 1
         \<and> closest_point1 r
             = start_point line1 + scale (end_point line1 - start_point line1) \<alpha>
         \<and> closest_point2 r
             = start_point line2 + scale (end_point line2 - start_point line2) \<beta>
         \<and> dist r = distance (closest_point1 r) (closest_point2 r)
         \<and> (\<forall>\<alpha>' \<beta>'. 0 \<le> \<alpha>' \<and> \<alpha>' \<le> 1 \<and> 0 \<le> \<beta>' \<and> \<beta>' \<le> 1 \<longrightarrow>
               dist r \<le> distance
                          (start_point line1
                             + scale (end_point line1 - start_point line1) \<alpha>')
                          (start_point line2
                             + scale (end_point line2 - start_point line2) \<beta>'))))"
proof (intro conjI impI)
  assume short: "distance (start_point line1) (end_point line1) < eps"
  define r where "r = closestPointsBetweenPointAndLineSegment (start_point line1) line2"
  obtain \<beta> where \<beta>: "0 \<le> \<beta>" "\<beta> \<le> 1"
      "closest_point2 r = start_point line2 + scale (end_point line2 - start_point line2) \<beta>"
      "\<forall>k. 0 \<le> k \<and> k \<le> 1 \<longrightarrow>
            dist r \<le> distance (start_point line1)
                       (start_point line2 + scale (end_point line2 - start_point line2) k)"
    using point_segment_closest [of "start_point line1" line2] unfolding r_def by blast
  have "closestPointsBetweenLineSegments eps line1 line2 = Inr r"
    using short by (simp add: closestPointsBetweenLineSegments_def r_def)
  moreover have "closest_point1 r = start_point line1"
    by (simp add: r_def point_segment_first)
  moreover have "dist r = distance (closest_point1 r) (closest_point2 r)"
    unfolding r_def by (rule closestPointsBetweenPointAndLineSegment_consistent)
  ultimately show "\<exists>r \<beta>. closestPointsBetweenLineSegments eps line1 line2 = Inr r
         \<and> r = closestPointsBetweenPointAndLineSegment (start_point line1) line2
         \<and> closest_point1 r = start_point line1
         \<and> 0 \<le> \<beta> \<and> \<beta> \<le> 1
         \<and> closest_point2 r
             = start_point line2 + scale (end_point line2 - start_point line2) \<beta>
         \<and> dist r = distance (closest_point1 r) (closest_point2 r)
         \<and> (\<forall>\<beta>'. 0 \<le> \<beta>' \<and> \<beta>' \<le> 1 \<longrightarrow>
               dist r \<le> distance (start_point line1)
                          (start_point line2
                             + scale (end_point line2 - start_point line2) \<beta>'))"
    using \<beta> r_def by blast
next
  assume short: "\<not> distance (start_point line1) (end_point line1) < eps
       \<and> distance (start_point line2) (end_point line2) < eps"
  define q where "q = closestPointsBetweenPointAndLineSegment (start_point line2) line1"
  define r where "r = \<lparr>dist = dist q, closest_point1 = closest_point2 q,
                        closest_point2 = closest_point1 q\<rparr>"
  obtain \<alpha> where \<alpha>: "0 \<le> \<alpha>" "\<alpha> \<le> 1"
      "closest_point2 q = start_point line1 + scale (end_point line1 - start_point line1) \<alpha>"
      "\<forall>k. 0 \<le> k \<and> k \<le> 1 \<longrightarrow>
            dist q \<le> distance (start_point line2)
                       (start_point line1 + scale (end_point line1 - start_point line1) k)"
    using point_segment_closest [of "start_point line2" line1] unfolding q_def by blast
  have q1: "closest_point1 q = start_point line2"
    by (simp add: q_def point_segment_first)
  have qd: "dist q = distance (closest_point1 q) (closest_point2 q)"
    unfolding q_def by (rule closestPointsBetweenPointAndLineSegment_consistent)
  have "closestPointsBetweenLineSegments eps line1 line2 = Inr r"
    using short by (simp add: closestPointsBetweenLineSegments_def r_def q_def swap_points_def)
  moreover have "closest_point1 r = closest_point2 q" "closest_point2 r = closest_point1 q"
      "dist r = dist q" "closest_point2 r = start_point line2"
    by (simp_all add: r_def q1)
  moreover have "closest_point1 r
             = start_point line1 + scale (end_point line1 - start_point line1) \<alpha>"
    by (simp add: r_def \<alpha>(3))
  moreover have "dist r = distance (closest_point1 r) (closest_point2 r)"
    by (simp add: r_def qd distance_commute)
  moreover have "\<forall>\<alpha>'. 0 \<le> \<alpha>' \<and> \<alpha>' \<le> 1 \<longrightarrow>
               dist r \<le> distance
                          (start_point line1
                             + scale (end_point line1 - start_point line1) \<alpha>')
                          (start_point line2)"
    using \<alpha>(4) by (simp add: r_def distance_commute [of "start_point line2"])
  ultimately show "\<exists>r \<alpha>. closestPointsBetweenLineSegments eps line1 line2 = Inr r
         \<and> closest_point1 r
             = closest_point2 (closestPointsBetweenPointAndLineSegment (start_point line2) line1)
         \<and> closest_point2 r
             = closest_point1 (closestPointsBetweenPointAndLineSegment (start_point line2) line1)
         \<and> dist r = dist (closestPointsBetweenPointAndLineSegment (start_point line2) line1)
         \<and> closest_point2 r = start_point line2
         \<and> 0 \<le> \<alpha> \<and> \<alpha> \<le> 1
         \<and> closest_point1 r
             = start_point line1 + scale (end_point line1 - start_point line1) \<alpha>
         \<and> dist r = distance (closest_point1 r) (closest_point2 r)
         \<and> (\<forall>\<alpha>'. 0 \<le> \<alpha>' \<and> \<alpha>' \<le> 1 \<longrightarrow>
               dist r \<le> distance
                          (start_point line1
                             + scale (end_point line1 - start_point line1) \<alpha>')
                          (start_point line2))"
    using \<alpha>(1,2) unfolding q_def [symmetric] by blast
next
  assume par: "0 < eps
       \<and> \<not> distance (start_point line1) (end_point line1) < eps
       \<and> \<not> distance (start_point line2) (end_point line2) < eps
       \<and> cross (end_point line1 - start_point line1) (end_point line2 - start_point line2)
           = Vector3 0 0 0"
  then have ne: "start_point line1 \<noteq> end_point line1"
    by (auto simp: distance_def)
  have "closestPointsBetweenLineSegments eps line1 line2
          = Inr (parallelLineSegments line1 line2)"
    using par by (simp add: closestPointsBetweenLineSegments_def Let_def cross_scale)
  then show "\<exists>r \<alpha> \<beta>. closestPointsBetweenLineSegments eps line1 line2 = Inr r
         \<and> r = parallelLineSegments line1 line2
         \<and> 0 \<le> \<alpha> \<and> \<alpha> \<le> 1 \<and> 0 \<le> \<beta> \<and> \<beta> \<le> 1
         \<and> closest_point1 r
             = start_point line1 + scale (end_point line1 - start_point line1) \<alpha>
         \<and> closest_point2 r
             = start_point line2 + scale (end_point line2 - start_point line2) \<beta>
         \<and> dist r = distance (closest_point1 r) (closest_point2 r)
         \<and> (\<forall>\<alpha>' \<beta>'. 0 \<le> \<alpha>' \<and> \<alpha>' \<le> 1 \<and> 0 \<le> \<beta>' \<and> \<beta>' \<le> 1 \<longrightarrow>
               dist r \<le> distance
                          (start_point line1
                             + scale (end_point line1 - start_point line1) \<alpha>')
                          (start_point line2
                             + scale (end_point line2 - start_point line2) \<beta>'))"
    using parallel_segments_closest [OF ne, of line2] par by simp
qed

lemma ex_lens:
  "distance (start_point example_point_line) (end_point example_point_line) = 0"
  "distance (start_point example_line1) (end_point example_line1) = 3"
  "distance (start_point example_line2) (end_point example_line2) = 1"
  "distance (start_point example_line3) (end_point example_line3) = 3"
  by (simp_all add: example_point_line_def example_line1_def example_line2_def
        example_line3_def vec_defs sqrt_9)


lemma sqrt_13: "\<not> sqrt 13 < 2"
proof -
  have "sqrt 4 \<le> sqrt 13" by (rule real_sqrt_le_mono) simp
  then show ?thesis by simp
qed

lemma example_point_segment:
  "closestPointsBetweenPointAndLineSegment (start_point example_point_line) example_line1
     = \<lparr>dist = 2, closest_point1 = Vector3 0 2 0, closest_point2 = Vector3 0 0 0\<rparr>"
  by (simp add: closestPointsBetweenPointAndLineSegment_def example_point_line_def
        example_line1_def normalized_def vec_defs sqrt_9 sqrt_13 Let_def)

lemma example_parallel_block:
  "parallelLineSegments example_line1 example_line2
     = \<lparr>dist = 1, closest_point1 = Vector3 1 0 0, closest_point2 = Vector3 1 1 0\<rparr>"
  by (simp add: parallelLineSegments_def example_line1_def example_line2_def vec_defs sqrt_9
        Let_def)

theorem degenerate_and_parallel_segments_witness:
  "closestPointsBetweenLineSegments (1 / 100000) example_point_line example_line1
     = Inr \<lparr>dist = 2, closest_point1 = Vector3 0 2 0, closest_point2 = Vector3 0 0 0\<rparr>
   \<and> closestPointsBetweenLineSegments (1 / 100000) example_line1 example_point_line
     = Inr \<lparr>dist = 2, closest_point1 = Vector3 0 0 0, closest_point2 = Vector3 0 2 0\<rparr>
   \<and> closestPointsBetweenLineSegments (1 / 100000) example_line1 example_line2
     = Inr \<lparr>dist = 1, closest_point1 = Vector3 1 0 0, closest_point2 = Vector3 1 1 0\<rparr>"
proof -
  have c: "cross (end_point example_line1 - start_point example_line1)
             (end_point example_line2 - start_point example_line2) = Vector3 0 0 0"
    by (simp add: example_line1_def example_line2_def vec_defs)
  from degenerate_and_parallel_segments [of example_point_line "1 / 100000" example_line1]
  obtain r where "closestPointsBetweenLineSegments (1 / 100000) example_point_line example_line1
                    = Inr r"
      and "r = closestPointsBetweenPointAndLineSegment (start_point example_point_line)
                 example_line1"
    by (auto simp: ex_lens)
  then have 1: "closestPointsBetweenLineSegments (1 / 100000) example_point_line example_line1
     = Inr \<lparr>dist = 2, closest_point1 = Vector3 0 2 0, closest_point2 = Vector3 0 0 0\<rparr>"
    by (simp add: example_point_segment)
  from degenerate_and_parallel_segments [of example_line1 "1 / 100000" example_point_line]
  obtain r where r: "closestPointsBetweenLineSegments (1 / 100000) example_line1
                    example_point_line = Inr r"
      and "closest_point1 r = closest_point2 (closestPointsBetweenPointAndLineSegment
                                (start_point example_point_line) example_line1)"
      and "closest_point2 r = closest_point1 (closestPointsBetweenPointAndLineSegment
                                (start_point example_point_line) example_line1)"
      and "dist r = dist (closestPointsBetweenPointAndLineSegment
                                (start_point example_point_line) example_line1)"
    by (auto simp: ex_lens)
  then have "r = \<lparr>dist = 2, closest_point1 = Vector3 0 0 0, closest_point2 = Vector3 0 2 0\<rparr>"
    by (cases r) (simp add: example_point_segment)
  with r have 2: "closestPointsBetweenLineSegments (1 / 100000) example_line1 example_point_line
     = Inr \<lparr>dist = 2, closest_point1 = Vector3 0 0 0, closest_point2 = Vector3 0 2 0\<rparr>"
    by simp
  from degenerate_and_parallel_segments [of example_line1 "1 / 100000" example_line2]
  obtain r where "closestPointsBetweenLineSegments (1 / 100000) example_line1 example_line2
                    = Inr r"
      and "r = parallelLineSegments example_line1 example_line2"
    by (auto simp: ex_lens c)
  then have 3: "closestPointsBetweenLineSegments (1 / 100000) example_line1 example_line2
     = Inr \<lparr>dist = 1, closest_point1 = Vector3 1 0 0, closest_point2 = Vector3 1 1 0\<rparr>"
    by (simp add: example_parallel_block)
  from 1 2 3 show ?thesis by blast
qed


lemma det3_swap_23: "det3 a c b = - det3 a b c"
  by (simp add: det3_def dot_def cross_def algebra_simps)

































lemma sqrt_2_eps: "\<not> sqrt 2 * 100000 < 1"
proof -
  have "1 < sqrt 2" by simp
  then show ?thesis by linarith
qed







section \<open>The agent manager's steps\<close>

subsection \<open>Planning\<close>

lemma planningStateTransition_returns:
  assumes "well_formed s"
  shows "\<exists>s'. planningStateTransition s = Inr s' \<and> param s' = param s
            \<and> cmd_publisher s' = cmd_publisher s"
  using assms
  by (auto simp: planningStateTransition_def mission_agent_def well_formed_def Let_def)

lemma plan_incomplete:
  "\<not> has_obstacles s \<or> \<not> has_current_state s \<Longrightarrow> plan env s t = Inr (WAITFORROSMSG, s)"
  by (simp add: plan_def)

lemma plan_complete:
  assumes "well_formed s" and "has_obstacles s" and "has_current_state s"
  shows "\<exists>s'. plan env s t = Inr (SUCCESS, s') \<and> \<not> has_obstacles s' \<and> \<not> has_current_state s'"
proof (cases "multisim_experiment (param s) \<and> planner_state s = LAND")
  case True
  with assms obtain cp where "cmd_publisher s = Some cp"
    by (auto simp: well_formed_def)
  with True assms show ?thesis
    by (simp add: plan_def)
next
  case False
  from planningStateTransition_returns [OF assms(1)] obtain s1 where
    s1: "planningStateTransition s = Inr s1" "param s1 = param s"
        "cmd_publisher s1 = cmd_publisher s"
    by blast
  show ?thesis
  proof (cases "multisim_experiment (param s)")
    case True
    with assms obtain cp where "cmd_publisher s = Some cp"
      by (auto simp: well_formed_def)
    with True False assms s1 show ?thesis
      by (simp add: plan_def Let_def split: prod.splits)
  next
    case nm: False
    with False assms s1 show ?thesis
      by (simp add: plan_def Let_def split: prod.splits)
  qed
qed

lemma wf_example: "well_formed example_manager"
  by (simp add: well_formed_def example_defs)

text \<open>
  Claim C3: \<open>plan\<close> answers \<open>WAITFORROSMSG\<close> exactly when the inputs of the tick are
  incomplete, that is when \<open>has_obstacles\<close> or \<open>has_current_state\<close> is false, and every
  answer is one of \<open>WAITFORROSMSG\<close>, \<open>SUCCESS\<close>, \<open>INITTRAJGENERATIONFAIL\<close>,
  \<open>CONSTRAINTGENERATIONFAIL\<close> and \<open>QPFAIL\<close>. The call returns for every well-formed
  manager.
\<close>

theorem plan_WAITFORROSMSG_iff_incomplete:
  assumes "well_formed s"
  shows "\<exists>r s'. plan env s t = Inr (r, s')
           \<and> (r = WAITFORROSMSG \<longleftrightarrow> (\<not> has_obstacles s \<or> \<not> has_current_state s))
           \<and> r \<in> {WAITFORROSMSG, SUCCESS, INITTRAJGENERATIONFAIL,
                    CONSTRAINTGENERATIONFAIL, QPFAIL}"
proof (cases "\<not> has_obstacles s \<or> \<not> has_current_state s")
  case True
  then show ?thesis using plan_incomplete [of s env t] by simp
next
  case False
  then show ?thesis using plan_complete [OF assms, of env t] by auto
qed

theorem plan_WAITFORROSMSG_iff_incomplete_witness:
  "well_formed example_manager
   \<and> (\<exists>r s'. plan example_env example_manager 0 = Inr (r, s') \<and> r \<noteq> WAITFORROSMSG)"
proof -
  have a: "has_obstacles example_manager \<and> has_current_state example_manager"
    by (simp add: example_defs)
  from plan_WAITFORROSMSG_iff_incomplete [OF wf_example, of example_env 0] a
  have "\<exists>r s'. plan example_env example_manager 0 = Inr (r, s') \<and> r \<noteq> WAITFORROSMSG"
    by auto
  with wf_example show ?thesis by blast
qed

text \<open>
  Claim C10: \<open>plan\<close> never answers \<open>INITTRAJGENERATIONFAIL\<close>, \<open>CONSTRAINTGENERATIONFAIL\<close>
  or \<open>QPFAIL\<close>. It answers \<open>WAITFORROSMSG\<close> when the inputs are incomplete and \<open>SUCCESS\<close>
  otherwise, whatever the planner state and whatever the trajectory planner did; after
  \<open>SUCCESS\<close> both input flags are false, so that a second call without fresh inputs answers
  \<open>WAITFORROSMSG\<close>.
\<close>

theorem plan_returns_WAITFORROSMSG_or_SUCCESS:
  assumes "well_formed s"
  shows "\<exists>r s'. plan env s t = Inr (r, s')
           \<and> r \<notin> {INITTRAJGENERATIONFAIL, CONSTRAINTGENERATIONFAIL, QPFAIL}
           \<and> (if \<not> has_obstacles s \<or> \<not> has_current_state s
               then r = WAITFORROSMSG
               else r = SUCCESS \<and> \<not> has_obstacles s' \<and> \<not> has_current_state s'
                    \<and> plan env s' t' = Inr (WAITFORROSMSG, s'))"
proof (cases "\<not> has_obstacles s \<or> \<not> has_current_state s")
  case True
  then show ?thesis using plan_incomplete [of s env t] by simp
next
  case False
  with plan_complete [OF assms, of env t] obtain s' where
    p: "plan env s t = Inr (SUCCESS, s')" "\<not> has_obstacles s'" "\<not> has_current_state s'"
    by auto
  have "plan env s' t' = Inr (WAITFORROSMSG, s')"
    by (rule plan_incomplete) (simp add: p)
  with p False show ?thesis by simp
qed

theorem plan_returns_WAITFORROSMSG_or_SUCCESS_witness:
  "well_formed (example_multisim\<lparr>planner_state := LAND\<rparr>)
   \<and> (\<exists>s'. plan example_env (example_multisim\<lparr>planner_state := LAND\<rparr>) 0 = Inr (SUCCESS, s')
            \<and> plan example_env s' 1 = Inr (WAITFORROSMSG, s'))"
proof -
  have wf2: "well_formed (example_multisim\<lparr>planner_state := LAND\<rparr>)"
    by (simp add: well_formed_def example_defs)
  have a: "has_obstacles (example_multisim\<lparr>planner_state := LAND\<rparr>)
           \<and> has_current_state (example_multisim\<lparr>planner_state := LAND\<rparr>)"
    by (simp add: example_defs)
  from plan_returns_WAITFORROSMSG_or_SUCCESS [OF wf2, of example_env 0 1] a
  have "\<exists>s'. plan example_env (example_multisim\<lparr>planner_state := LAND\<rparr>) 0 = Inr (SUCCESS, s')
            \<and> plan example_env s' 1 = Inr (WAITFORROSMSG, s')"
    by auto
  with wf2 show ?thesis by blast
qed

subsection \<open>The planner state\<close>

text \<open>
  Claim C7: in the state \<open>PATROL\<close>, the transition made before planning exchanges the start
  point and the desired goal when the current position is closer to the desired goal than
  the goal threshold, and leaves both as they are otherwise.
\<close>

theorem PATROL_swaps_start_and_goal:
  assumes "planner_state s = PATROL"
  shows "\<exists>s'. planningStateTransition s = Inr s'
           \<and> (if distance (position (current_state (agent s))) (desired_goal_point (agent s))
                   < goal_threshold (param s)
               then desired_goal_point (agent s') = start_point_Agent (agent s)
                    \<and> start_point_Agent (agent s') = desired_goal_point (agent s)
               else desired_goal_point (agent s') = desired_goal_point (agent s)
                    \<and> start_point_Agent (agent s') = start_point_Agent (agent s))"
  using assms
  by (simp add: planningStateTransition_def Let_def
        distance_commute [of "position (current_state (agent s))"])

theorem PATROL_swaps_start_and_goal_witness:
  "planner_state example_manager = PATROL
   \<and> (\<exists>s'. planningStateTransition example_manager = Inr s'
          \<and> desired_goal_point (agent s') = Vector3 0 0 1
          \<and> start_point_Agent (agent s') = Vector3 5 0 1)"
proof -
  have p: "planner_state example_manager = PATROL"
    by (simp add: example_defs)
  have d: "distance (position (current_state (agent example_manager)))
             (desired_goal_point (agent example_manager))
           < goal_threshold (param example_manager)"
    by (simp add: example_defs distance_def norm3_def dot_def minus_point3d_def)
  have g: "start_point_Agent (agent example_manager) = Vector3 0 0 1"
          "desired_goal_point (agent example_manager) = Vector3 5 0 1"
    by (simp_all add: example_defs)
  from PATROL_swaps_start_and_goal [OF p] d g p show ?thesis by auto
qed

text \<open>
  Claim C8, as amended: \<open>setPlannerState\<close> leaves the planner state as it is when the
  multi-simulation experiment is enabled, the state is \<open>LAND\<close> and the command executor
  reports that landing has not finished; in every other situation it sets the planner
  state to the requested value.
\<close>

theorem setPlannerState_ignored_while_landing:
  assumes "multisim_experiment (param s) \<longrightarrow> cmd_publisher s \<noteq> None"
  shows "setPlannerState s new_planner_state =
           (if multisim_experiment (param s) \<and> planner_state s = LAND
               \<and> \<not> landingFinished (the (cmd_publisher s))
            then Inr s else Inr (s\<lparr>planner_state := new_planner_state\<rparr>))"
  using assms by (auto simp: setPlannerState_def split: option.splits)

theorem setPlannerState_ignored_while_landing_witness:
  "multisim_experiment (param (example_multisim\<lparr>planner_state := LAND\<rparr>))
   \<and> planner_state (example_multisim\<lparr>planner_state := LAND\<rparr>) = LAND
   \<and> cmd_publisher (example_multisim\<lparr>planner_state := LAND\<rparr>) = Some example_publisher
   \<and> \<not> landingFinished example_publisher
   \<and> setPlannerState (example_multisim\<lparr>planner_state := LAND\<rparr>) GOTO
       = Inr (example_multisim\<lparr>planner_state := LAND\<rparr>)
   \<and> setPlannerState example_multisim LAND = Inr (example_multisim\<lparr>planner_state := LAND\<rparr>)"
proof -
  have a: "multisim_experiment (param (example_multisim\<lparr>planner_state := LAND\<rparr>))
      \<longrightarrow> cmd_publisher (example_multisim\<lparr>planner_state := LAND\<rparr>) \<noteq> None"
    by (simp add: example_defs)
  have b: "multisim_experiment (param example_multisim)
      \<longrightarrow> cmd_publisher example_multisim \<noteq> None"
    by (simp add: example_defs)
  have c: "multisim_experiment (param (example_multisim\<lparr>planner_state := LAND\<rparr>))
   \<and> planner_state (example_multisim\<lparr>planner_state := LAND\<rparr>) = LAND
   \<and> cmd_publisher (example_multisim\<lparr>planner_state := LAND\<rparr>) = Some example_publisher
   \<and> \<not> landingFinished example_publisher"
    by (simp add: example_defs)
  have 1: "setPlannerState (example_multisim\<lparr>planner_state := LAND\<rparr>) GOTO
       = Inr (example_multisim\<lparr>planner_state := LAND\<rparr>)"
    using setPlannerState_ignored_while_landing [OF a, of GOTO]
    by (simp add: example_defs)
  have 2: "setPlannerState example_multisim LAND
       = Inr (example_multisim\<lparr>planner_state := LAND\<rparr>)"
    using setPlannerState_ignored_while_landing [OF b, of LAND]
    by (simp add: example_defs)
  from c 1 2 show ?thesis by blast
qed

text \<open>
  Without the multi-simulation experiment there is no command executor and no landing
  completes, yet a request made in the state \<open>LAND\<close> is honoured: claim C8 as first stated,
  without the condition on the experiment, fails for this manager.
\<close>

theorem setPlannerState_counterexample:
  "well_formed (example_manager\<lparr>planner_state := LAND\<rparr>)
   \<and> planner_state (example_manager\<lparr>planner_state := LAND\<rparr>) = LAND
   \<and> cmd_publisher (example_manager\<lparr>planner_state := LAND\<rparr>) = None
   \<and> setPlannerState (example_manager\<lparr>planner_state := LAND\<rparr>) GOTO
       = Inr (example_manager\<lparr>planner_state := GOTO\<rparr>)
   \<and> planner_state (example_manager\<lparr>planner_state := GOTO\<rparr>) \<noteq> LAND"
  by (simp add: setPlannerState_def well_formed_def example_defs)

subsection \<open>Stepping under a disturbance\<close>

text \<open>
  Claim C4, as amended: when the multi-simulation experiment is enabled and the command
  executor asserts the disturbance flag, \<open>doStep\<close> sets the velocity and the acceleration
  to zero and the position to the observed position, whose third coordinate is replaced by
  the configured plane height in a two-dimensional world. The integrated future state is
  not applied: the outcome is the same whatever state the trajectory evaluates to.
\<close>

theorem doStep_disturbed_overrides_state:
  assumes "multisim_experiment (param s)"
      and "cmd_publisher s = Some cp"
      and "isDisturbed cp"
  shows "\<exists>s'. doStep env s time_step = Inr s'
           \<and> position (current_state (agent s')) =
               (if world_dimension (param s) = 2
                then set_z (getObservedAgentPosition cp) (world_z_2d (param s))
                else getObservedAgentPosition cp)
           \<and> velocity (current_state (agent s')) = Vector3 0 0 0
           \<and> acceleration (current_state (agent s')) = Vector3 0 0 0
           \<and> is_disturbed s' \<and> has_current_state s'
           \<and> doStep env' s time_step = Inr s'"
  using assms by (simp add: doStep_def doStep_rest_def Let_def)

theorem doStep_disturbed_overrides_state_witness:
  "multisim_experiment (param example_multisim)
   \<and> cmd_publisher example_multisim = Some example_publisher
   \<and> isDisturbed example_publisher
   \<and> (\<exists>s'. doStep example_env example_multisim 1 = Inr s'
          \<and> position (current_state (agent s')) = Vector3 1 2 1
          \<and> velocity (current_state (agent s')) = Vector3 0 0 0
          \<and> acceleration (current_state (agent s')) = Vector3 0 0 0)"
proof -
  have a: "multisim_experiment (param example_multisim)"
    and b: "cmd_publisher example_multisim = Some example_publisher"
    and c: "isDisturbed example_publisher"
    by (simp_all add: example_defs)
  have d: "world_dimension (param example_multisim) = 2"
          "world_z_2d (param example_multisim) = 1"
          "getObservedAgentPosition example_publisher = Vector3 1 2 3"
    by (simp_all add: example_defs)
  from doStep_disturbed_overrides_state [OF a b c, of example_env 1 example_env] d
  have "\<exists>s'. doStep example_env example_multisim 1 = Inr s'
          \<and> position (current_state (agent s')) = Vector3 1 2 1
          \<and> velocity (current_state (agent s')) = Vector3 0 0 0
          \<and> acceleration (current_state (agent s')) = Vector3 0 0 0"
    by (auto simp: set_z_def)
  with a b c show ?thesis by blast
qed

text \<open>
  In a two-dimensional world the position after the step is not the observed position
  itself: claim C4 as first stated fails for an observed height other than the plane's.
\<close>

theorem doStep_disturbed_counterexample:
  "multisim_experiment (param example_multisim)
   \<and> cmd_publisher example_multisim = Some example_publisher
   \<and> isDisturbed example_publisher
   \<and> getObservedAgentPosition example_publisher = Vector3 1 2 3
   \<and> doStep example_env example_multisim 1
       = Inr (example_multisim
                \<lparr>agent := example_agent
                   \<lparr>current_state :=
                      \<lparr>position = Vector3 1 2 1, velocity = Vector3 0 0 0,
                       acceleration = Vector3 0 0 0\<rparr>\<rparr>,
                 has_current_state := True, is_disturbed := True\<rparr>)
   \<and> Vector3 1 2 1 \<noteq> Vector3 1 2 3"
  by (simp add: doStep_def doStep_rest_def set_z_def example_defs)

end
